theory Spec2Isabelle
  imports Complex_Main
begin

section \<open>Doubles\<close>

text \<open>
  The embedding follows \<^verbatim>\<open>src/CameraZoomPlugin.cc\<close>. A \<^verbatim>\<open>double\<close> is a finite value,
  an infinity or a NaN, with the arithmetic of IEEE 754 on the special values:
  a NaN operand gives NaN, every comparison with NaN is false, a nonzero finite value
  divided by zero is an infinity, and so on. On finite operands the result is the
  exact real result: rounding and overflow are not modelled, and negative zero is
  identified with zero. So a statement below about finite values is a statement about
  exact arithmetic.
\<close>

datatype double = Fin real | PInf | NInf | NaN

instantiation double :: "{plus, minus, times, inverse, abs, ord}"
begin

fun plus_double :: "double \<Rightarrow> double \<Rightarrow> double" where
  "plus_double NaN b = NaN"
| "plus_double a NaN = NaN"
| "plus_double (Fin a) (Fin b) = Fin (a + b)"
| "plus_double PInf NInf = NaN"
| "plus_double NInf PInf = NaN"
| "plus_double PInf b = PInf"
| "plus_double NInf b = NInf"
| "plus_double (Fin a) b = b"

fun minus_double :: "double \<Rightarrow> double \<Rightarrow> double" where
  "minus_double NaN b = NaN"
| "minus_double a NaN = NaN"
| "minus_double (Fin a) (Fin b) = Fin (a - b)"
| "minus_double PInf PInf = NaN"
| "minus_double NInf NInf = NaN"
| "minus_double PInf b = PInf"
| "minus_double NInf b = NInf"
| "minus_double (Fin a) PInf = NInf"
| "minus_double (Fin a) NInf = PInf"

fun times_double :: "double \<Rightarrow> double \<Rightarrow> double" where
  "times_double NaN b = NaN"
| "times_double a NaN = NaN"
| "times_double (Fin a) (Fin b) = Fin (a * b)"
| "times_double (Fin a) PInf = (if a = 0 then NaN else if 0 < a then PInf else NInf)"
| "times_double (Fin a) NInf = (if a = 0 then NaN else if 0 < a then NInf else PInf)"
| "times_double PInf (Fin b) = (if b = 0 then NaN else if 0 < b then PInf else NInf)"
| "times_double NInf (Fin b) = (if b = 0 then NaN else if 0 < b then NInf else PInf)"
| "times_double PInf PInf = PInf"
| "times_double PInf NInf = NInf"
| "times_double NInf PInf = NInf"
| "times_double NInf NInf = PInf"

fun divide_double :: "double \<Rightarrow> double \<Rightarrow> double" where
  "divide_double NaN b = NaN"
| "divide_double a NaN = NaN"
| "divide_double (Fin a) (Fin b) =
     (if b = 0 then (if a = 0 then NaN else if 0 < a then PInf else NInf) else Fin (a / b))"
| "divide_double (Fin a) PInf = Fin 0"
| "divide_double (Fin a) NInf = Fin 0"
| "divide_double PInf (Fin b) = (if 0 \<le> b then PInf else NInf)"
| "divide_double NInf (Fin b) = (if 0 \<le> b then NInf else PInf)"
| "divide_double PInf b = NaN"
| "divide_double NInf b = NaN"

definition inverse_double :: "double \<Rightarrow> double" where
  "inverse_double a = divide (Fin 1) (a :: double)"

fun abs_double :: "double \<Rightarrow> double" where
  "abs_double (Fin a) = Fin \<bar>a\<bar>"
| "abs_double PInf = PInf"
| "abs_double NInf = PInf"
| "abs_double NaN = NaN"

fun less_double :: "double \<Rightarrow> double \<Rightarrow> bool" where
  "less_double (Fin a) (Fin b) = (a < b)"
| "less_double (Fin a) PInf = True"
| "less_double NInf (Fin b) = True"
| "less_double NInf PInf = True"
| "less_double a b = False"

fun less_eq_double :: "double \<Rightarrow> double \<Rightarrow> bool" where
  "less_eq_double (Fin a) (Fin b) = (a \<le> b)"
| "less_eq_double (Fin a) PInf = True"
| "less_eq_double NInf (Fin b) = True"
| "less_eq_double NInf PInf = True"
| "less_eq_double PInf PInf = True"
| "less_eq_double NInf NInf = True"
| "less_eq_double a b = False"

instance ..

end

text \<open>\<^verbatim>\<open>std::isfinite\<close>.\<close>

fun isfinite :: "double \<Rightarrow> bool" where
  "isfinite (Fin a) = True"
| "isfinite a = False"

text \<open>\<^verbatim>\<open>std::numeric_limits<double>::epsilon()\<close>, the gap between 1 and the next double.\<close>

definition epsilon :: real where
  "epsilon = 1 / 2 ^ 52"

section \<open>Library functions the source calls\<close>

text \<open>
  Modelled from the C++ standard library: \<^verbatim>\<open>std::min(a, b)\<close> is \<^verbatim>\<open>(b < a) ? b : a\<close>,
  \<^verbatim>\<open>std::max(a, b)\<close> is \<^verbatim>\<open>(a < b) ? b : a\<close>, and \<^verbatim>\<open>std::clamp(v, lo, hi)\<close> is
  \<^verbatim>\<open>std::min(std::max(v, lo), hi)\<close> as libstdc++ has it, which also fixes what it
  returns when \<open>hi < lo\<close>.
\<close>

definition std_min :: "double \<Rightarrow> double \<Rightarrow> double" where
  "std_min a b = (if b < a then b else a)"

definition std_max :: "double \<Rightarrow> double \<Rightarrow> double" where
  "std_max a b = (if a < b then b else a)"

definition std_clamp :: "double \<Rightarrow> double \<Rightarrow> double \<Rightarrow> double" where
  "std_clamp v lo hi = std_min (std_max v lo) hi"

text \<open>
  Modelled from the C standard library. On finite arguments \<^verbatim>\<open>atan2(y, x)\<close> is the
  angle of the point \<open>(x, y)\<close> in \<open>(-pi, pi]\<close>, and 0 at the origin; the values at the
  infinities are those of Annex F. \<^verbatim>\<open>tan\<close> of an infinity is NaN.
\<close>

definition atan2 :: "real \<Rightarrow> real \<Rightarrow> real" where
  "atan2 y x =
     (if 0 < x then arctan (y / x)
      else if x < 0 then (if 0 \<le> y then arctan (y / x) + pi else arctan (y / x) - pi)
      else if 0 < y then pi / 2
      else if y < 0 then - (pi / 2)
      else 0)"

fun std_atan2 :: "double \<Rightarrow> double \<Rightarrow> double" where
  "std_atan2 NaN x = NaN"
| "std_atan2 y NaN = NaN"
| "std_atan2 (Fin y) (Fin x) = Fin (atan2 y x)"
| "std_atan2 (Fin y) PInf = Fin 0"
| "std_atan2 (Fin y) NInf = (if 0 \<le> y then Fin pi else Fin (- pi))"
| "std_atan2 PInf (Fin x) = Fin (pi / 2)"
| "std_atan2 NInf (Fin x) = Fin (- (pi / 2))"
| "std_atan2 PInf PInf = Fin (pi / 4)"
| "std_atan2 NInf PInf = Fin (- (pi / 4))"
| "std_atan2 PInf NInf = Fin (3 * pi / 4)"
| "std_atan2 NInf NInf = Fin (- (3 * pi / 4))"

fun std_tan :: "double \<Rightarrow> double" where
  "std_tan (Fin x) = Fin (tan x)"
| "std_tan x = NaN"

section \<open>Optics conversions\<close>

definition FocalLengthToFov :: "double \<Rightarrow> double \<Rightarrow> double" where
  "FocalLengthToFov sensorWidth focalLength = Fin 2 * std_atan2 sensorWidth (Fin 2 * focalLength)"

definition FovToFocalLength :: "double \<Rightarrow> double \<Rightarrow> double" where
  "FovToFocalLength sensorWidth fov = sensorWidth / (Fin 2 * std_tan (fov / Fin 2))"

definition SensorWidth :: "double \<Rightarrow> double \<Rightarrow> double" where
  "SensorWidth focalLength fov = Fin 2 * std_tan (fov / Fin 2) * focalLength"

section \<open>CameraZoomPlugin: data model\<close>

text \<open>
  Handles into the rendering engine are addresses. A \<^verbatim>\<open>rendering::SensorPtr\<close> either
  casts to a \<^verbatim>\<open>rendering::Camera\<close> (\<^verbatim>\<open>std::dynamic_pointer_cast\<close> succeeds) or not.
\<close>

type_synonym ScenePtr = nat
type_synonym CameraPtr = nat

datatype SensorPtr = CameraSensorPtr CameraPtr | OtherSensorPtr

text \<open>
  What the rendering collaborator answers during one call of \<^verbatim>\<open>InitialiseCamera\<close>:
  the functions of \<^verbatim>\<open>gz::rendering\<close> the source calls, as they stand at that moment.
\<close>

record rendering =
  loadedEngines_empty :: bool
  sceneFromFirstRenderEngine :: "ScenePtr option"
  IsInitialized :: "ScenePtr \<Rightarrow> bool"
  SensorCount :: "ScenePtr \<Rightarrow> nat"
  SensorByName :: "ScenePtr \<Rightarrow> string \<Rightarrow> SensorPtr option"

text \<open>
  \<^verbatim>\<open>sdf::Camera\<close>, as far as the plugin touches it: \<^verbatim>\<open>HorizontalFov()\<close> and
  \<^verbatim>\<open>LensFocalLength()\<close> read two independent attributes, and
  \<^verbatim>\<open>SetHorizontalFov\<close> writes the first one only.
\<close>

record sdf_Camera =
  HorizontalFov :: double
  LensFocalLength :: double

definition SetHorizontalFov :: "double \<Rightarrow> sdf_Camera \<Rightarrow> sdf_Camera" where
  "SetHorizontalFov v c = c\<lparr>HorizontalFov := v\<rparr>"

text \<open>
  The entity component manager, restricted to the camera sensor entity:
  \<^verbatim>\<open>_ecm.Component<components::Camera>(cameraEntity)\<close> is \<open>None\<close> for a null pointer,
  and the \<^verbatim>\<open>sdf::Sensor\<close> it holds answers \<^verbatim>\<open>CameraSensor()\<close> with a camera or null.
\<close>

record sdf_Sensor =
  CameraSensor :: "sdf_Camera option"

record EntityComponentManager =
  Component_Camera :: "sdf_Sensor option"

text \<open>
  \<^verbatim>\<open>gz::sim::UpdateInfo\<close>: \<open>dt\<close> in seconds, the finite value of
  \<^verbatim>\<open>std::chrono::duration<double>(dt).count()\<close>.
\<close>

record UpdateInfo =
  dt :: real

text \<open>The members of \<^verbatim>\<open>CameraZoomPlugin::Impl\<close> that hold values, with the source's names.\<close>

record Impl =
  cameraName :: string
  zoomTopic :: string
  zoomChanged :: bool
  zoomCommand :: double
  refHfov :: double
  goalHfov :: double
  curZoom :: double
  maxZoom :: double
  slewRate :: double
  isValidConfig :: bool
  scene :: "ScenePtr option"
  camera :: "CameraPtr option"

definition minZoom :: double where
  "minZoom = Fin 1.0"

text \<open>The default member initialisers of \<^verbatim>\<open>Impl\<close>.\<close>

definition Impl_init :: Impl where
  "Impl_init = \<lparr> cameraName = [], zoomTopic = [], zoomChanged = False, zoomCommand = Fin 1.0,
     refHfov = Fin 2.0, goalHfov = Fin 2.0, curZoom = Fin 1.0, maxZoom = Fin 10.0,
     slewRate = PInf, isValidConfig = False, scene = None, camera = None \<rparr>"

text \<open>
  What a call does besides changing \<^verbatim>\<open>Impl\<close> and the camera component: console
  messages, \<^verbatim>\<open>_ecm.SetChanged(cameraEntity, components::Camera::typeId, OneTimeChange)\<close>
  and \<^verbatim>\<open>camera->SetHFOV\<close> on the rendering camera, in the order they happen.
\<close>

datatype effect =
    Gzwarn_clamped double double
  | Gzwarn_no_scene
  | Gzerr_no_sensor string
  | Gzerr_not_camera string
  | Gzerr_configure string
  | Gzdbg_attached string
  | Gzdbg_subscribing string
  | Gzdbg_camera_name string
  | Gzdbg_disabled
  | SetChanged
  | SetHFOV CameraPtr double

section \<open>Command handler, camera acquisition, teardown\<close>

text \<open>\<^verbatim>\<open>OnZoom\<close> stores whatever double the message carries, a NaN too.\<close>

definition OnZoom :: "double \<Rightarrow> Impl \<Rightarrow> Impl" where
  "OnZoom msg_data i = i\<lparr>zoomCommand := msg_data, zoomChanged := True\<rparr>"

definition InitialiseCamera :: "rendering \<Rightarrow> Impl \<Rightarrow> Impl \<times> effect list" where
  "InitialiseCamera r i =
     (if loadedEngines_empty r then (i, [])
      else
        let i1 = (if scene i = None then i\<lparr>scene := sceneFromFirstRenderEngine r\<rparr> else i)
        in case scene i1 of
             None \<Rightarrow> (i1, [Gzwarn_no_scene])
           | Some sc \<Rightarrow>
               if \<not> IsInitialized r sc \<or> SensorCount r sc = 0 then (i1, [Gzwarn_no_scene])
               else if camera i1 = None then
                 (case SensorByName r sc (cameraName i1) of
                    None \<Rightarrow> (i1, [Gzerr_no_sensor (cameraName i1)])
                  | Some OtherSensorPtr \<Rightarrow> (i1, [Gzerr_not_camera (cameraName i1)])
                  | Some (CameraSensorPtr c) \<Rightarrow> (i1\<lparr>camera := Some c\<rparr>, []))
               else (i1, []))"

definition OnRenderTeardown :: "Impl \<Rightarrow> Impl \<times> effect list" where
  "OnRenderTeardown i =
     (i\<lparr>camera := None, scene := None, isValidConfig := False\<rparr>, [Gzdbg_disabled])"

section \<open>Configuration\<close>

text \<open>
  What \<^verbatim>\<open>Configure\<close> reads: the answers of the entity component manager about the
  sensor entity, its parent model and the world, the optional elements of the SDF,
  and \<^verbatim>\<open>gz::sim::validTopic\<close>, a function of another library.
\<close>

record ConfigureArgs =
  SensorValid :: bool
  SensorName :: "string option"
  parentModelName :: "string option"
  worldValid :: bool
  sdf_max_zoom :: "double option"
  sdf_slew_rate :: "double option"
  sdf_topic :: "string option"
  validTopic :: "string list \<Rightarrow> string"

definition Configure :: "ConfigureArgs \<Rightarrow> Impl \<Rightarrow> Impl \<times> effect list" where
  "Configure a i =
     (if \<not> SensorValid a then (i, [Gzerr_configure ''not a camera sensor''])
      else case SensorName a of
        None \<Rightarrow> (i, [Gzerr_configure ''invalid name''])
      | Some sensorName \<Rightarrow>
         (case parentModelName a of
            None \<Rightarrow> (i, [Gzdbg_attached sensorName, Gzerr_configure ''parent model not found''])
          | Some modelName \<Rightarrow>
              if \<not> worldValid a
              then (i, [Gzdbg_attached sensorName, Gzerr_configure ''world not found''])
              else
                let i1 = (case sdf_max_zoom a of None \<Rightarrow> i | Some v \<Rightarrow> i\<lparr>maxZoom := v\<rparr>);
                    i2 = (case sdf_slew_rate a of None \<Rightarrow> i1 | Some v \<Rightarrow> i1\<lparr>slewRate := v\<rparr>);
                    topics = (case sdf_topic a of None \<Rightarrow> [] | Some t \<Rightarrow> [t])
                      @ [''/model/'' @ modelName @ ''/sensor/'' @ sensorName @ ''/zoom/cmd_zoom''];
                    i3 = i2\<lparr>zoomTopic := validTopic a topics\<rparr>
                in (i3\<lparr>isValidConfig := True\<rparr>,
                    [Gzdbg_attached sensorName, Gzdbg_subscribing (zoomTopic i3)])))"

section \<open>The per-tick update\<close>

text \<open>
  Lines 414 to 428 of the source: the goal is computed once each time the zoom
  command has changed.
\<close>

definition resolveGoal :: "Impl \<Rightarrow> Impl \<times> effect list" where
  "resolveGoal i =
     (if zoomChanged i then
        let requestedZoomCmd = zoomCommand i;
            clampedZoomCmd = std_clamp requestedZoomCmd minZoom (maxZoom i)
        in (i\<lparr>goalHfov := refHfov i / clampedZoomCmd, zoomChanged := False\<rparr>,
            if \<bar>requestedZoomCmd - clampedZoomCmd\<bar> > Fin epsilon
            then [Gzwarn_clamped requestedZoomCmd clampedZoomCmd] else [])
      else (i, []))"

text \<open>Lines 451 to 473: the new focal length, rate limited when the slew rate is finite.\<close>

definition newFocalLength :: "double \<Rightarrow> real \<Rightarrow> double \<Rightarrow> double \<Rightarrow> double" where
  "newFocalLength rate dt_seconds curFocalLength goalFocalLength =
     (if isfinite rate then
        let maxFocalLengthChange = rate * Fin dt_seconds;
            deltaFL = std_min maxFocalLengthChange \<bar>curFocalLength - goalFocalLength\<bar>
        in if goalFocalLength > curFocalLength
           then curFocalLength + deltaFL
           else curFocalLength - deltaFL
      else goalFocalLength)"

text \<open>
  Lines 436 to 483: the early exit at the goal, then the slew and the two writes of
  the new field of view (to the SDF camera and to the rendering camera).
\<close>

definition updateFov ::
  "Impl \<Rightarrow> CameraPtr \<Rightarrow> UpdateInfo \<Rightarrow> sdf_Camera \<Rightarrow> sdf_Camera \<times> effect list" where
  "updateFov i cam info cameraSdf =
     (let oldHfov = HorizontalFov cameraSdf in
      if \<bar>goalHfov i - oldHfov\<bar> < Fin epsilon then (cameraSdf, [])
      else
        let curFocalLength = LensFocalLength cameraSdf;
            sensorWidth = SensorWidth curFocalLength oldHfov;
            goalFocalLength = FovToFocalLength sensorWidth (goalHfov i);
            newFL = newFocalLength (slewRate i) (dt info) curFocalLength goalFocalLength;
            newHfov = FocalLengthToFov sensorWidth newFL
        in (SetHorizontalFov newHfov cameraSdf, [SetChanged, SetHFOV cam newHfov]))"

definition PreUpdate ::
  "rendering \<Rightarrow> UpdateInfo \<Rightarrow> Impl \<times> EntityComponentManager
     \<Rightarrow> (Impl \<times> EntityComponentManager) \<times> effect list" where
  "PreUpdate r info s =
     (case s of (i, ecm) \<Rightarrow>
        if \<not> isValidConfig i then (s, [])
        else
          (case camera i of
             None \<Rightarrow> (case InitialiseCamera r i of (i1, out) \<Rightarrow> ((i1, ecm), out))
           | Some cam \<Rightarrow>
              (case Component_Camera ecm of
                 None \<Rightarrow> (s, [])
               | Some sensor \<Rightarrow>
                  (case resolveGoal i of (i1, out1) \<Rightarrow>
                     (case CameraSensor sensor of
                        None \<Rightarrow> ((i1, ecm), out1)
                      | Some cameraSdf \<Rightarrow>
                         (case updateFov i1 cam info cameraSdf of (cameraSdf1, out2) \<Rightarrow>
                            ((i1, ecm\<lparr>Component_Camera :=
                                       Some (sensor\<lparr>CameraSensor := Some cameraSdf1\<rparr>)\<rparr>),
                             out1 @ out2)))))))"

text \<open>
  \<^verbatim>\<open>PostUpdate\<close> names the camera once; the scoped name of the entity is the answer
  of \<^verbatim>\<open>removeParentScope(scopedName(...))\<close>, functions of another library.
\<close>

definition PostUpdate :: "string \<Rightarrow> Impl \<Rightarrow> Impl \<times> effect list" where
  "PostUpdate scoped i =
     (if cameraName i \<noteq> [] then (i, [])
      else (i\<lparr>cameraName := scoped\<rparr>, [Gzdbg_camera_name scoped]))"

section \<open>Runs of the plugin\<close>

text \<open>
  The calls the simulation makes on a configured plugin, one at a time: the two
  update callbacks, a zoom message, the render teardown event. A zoom message is
  handled between two callbacks; interleavings inside \<^verbatim>\<open>PreUpdate\<close> are not modelled.
\<close>

datatype event =
    E_PreUpdate rendering UpdateInfo
  | E_PostUpdate string
  | E_OnZoom double
  | E_RenderTeardown

fun step :: "event \<Rightarrow> Impl \<times> EntityComponentManager
    \<Rightarrow> (Impl \<times> EntityComponentManager) \<times> effect list" where
  "step (E_PreUpdate r info) s = PreUpdate r info s"
| "step (E_PostUpdate scoped) (i, ecm) =
     (case PostUpdate scoped i of (i1, out) \<Rightarrow> ((i1, ecm), out))"
| "step (E_OnZoom z) (i, ecm) = ((OnZoom z i, ecm), [])"
| "step E_RenderTeardown (i, ecm) =
     (case OnRenderTeardown i of (i1, out) \<Rightarrow> ((i1, ecm), out))"

fun run :: "event list \<Rightarrow> Impl \<times> EntityComponentManager
    \<Rightarrow> (Impl \<times> EntityComponentManager) \<times> effect list" where
  "run [] s = (s, [])"
| "run (e # es) s =
     (case step e s of (s1, out1) \<Rightarrow>
        (case run es s1 of (s2, out2) \<Rightarrow> (s2, out1 @ out2)))"

text \<open>The field of view of the SDF camera held by the camera component, if there is one.\<close>

definition cameraHfov :: "EntityComponentManager \<Rightarrow> double option" where
  "cameraHfov ecm =
     (case Component_Camera ecm of
        None \<Rightarrow> None
      | Some sensor \<Rightarrow> map_option HorizontalFov (CameraSensor sensor))"

text \<open>A component manager whose camera component holds the given SDF camera.\<close>

definition ecm_with :: "sdf_Camera \<Rightarrow> EntityComponentManager" where
  "ecm_with c = \<lparr> Component_Camera = Some \<lparr> CameraSensor = Some c \<rparr> \<rparr>"

text \<open>The effects that signal a change of the field of view.\<close>

fun is_fov_write :: "effect \<Rightarrow> bool" where
  "is_fov_write SetChanged = True"
| "is_fov_write (SetHFOV cam v) = True"
| "is_fov_write e = False"

fun is_clamp_warning :: "effect \<Rightarrow> bool" where
  "is_clamp_warning (Gzwarn_clamped requested clamped) = True"
| "is_clamp_warning e = False"


text \<open>Whether a call is a zoom message.\<close>

fun is_OnZoom :: "event \<Rightarrow> bool" where
  "is_OnZoom (E_OnZoom z) = True"
| "is_OnZoom e = False"

section \<open>Example inputs\<close>

text \<open>A render engine that is not loaded yet.\<close>

definition no_rendering :: rendering where
  "no_rendering = \<lparr> loadedEngines_empty = True, sceneFromFirstRenderEngine = None,
     IsInitialized = (\<lambda>sc. False), SensorCount = (\<lambda>sc. 0), SensorByName = (\<lambda>sc n. None) \<rparr>"

text \<open>A configured plugin with the default parameters that holds its rendering camera.\<close>

definition example_impl :: Impl where
  "example_impl = Impl_init\<lparr>cameraName := ''camera'', isValidConfig := True,
     scene := Some 0, camera := Some 0\<rparr>"

text \<open>A render engine with an initialised scene that holds the camera named \<open>camera\<close>.\<close>

definition ready_rendering :: rendering where
  "ready_rendering = \<lparr> loadedEngines_empty = False, sceneFromFirstRenderEngine = Some 0,
     IsInitialized = (\<lambda>sc. True), SensorCount = (\<lambda>sc. 1),
     SensorByName = (\<lambda>sc n. if n = ''camera'' then Some (CameraSensorPtr 7) else None) \<rparr>"

text \<open>
  A successful \<^verbatim>\<open>Configure\<close> of a sensor \<open>camera\<close> on a model \<open>gimbal\<close>, with no
  optional SDF element, so that every parameter keeps its default.
\<close>

definition default_args :: ConfigureArgs where
  "default_args = \<lparr> SensorValid = True, SensorName = Some ''camera'',
     parentModelName = Some ''gimbal'', worldValid = True, sdf_max_zoom = None,
     sdf_slew_rate = None, sdf_topic = None,
     validTopic = (\<lambda>topics. case topics of [] \<Rightarrow> [] | t # rest \<Rightarrow> t) \<rparr>"

section \<open>Bounds used below\<close>

lemma epsilon_small: "0 < epsilon \<and> epsilon < 1 / 1000"
  by (simp add: epsilon_def)

lemma pi_ge_three: "3 \<le> pi"
  using sin_x_le_x [of "pi / 6"] by (simp add: sin_30)

section \<open>The branches of the per-tick update\<close>

lemma InitialiseCamera_frame:
  "fst (InitialiseCamera r i) = i\<lparr>scene := scene (fst (InitialiseCamera r i)),
       camera := camera (fst (InitialiseCamera r i))\<rparr>"
  by (simp add: InitialiseCamera_def Let_def split: option.split SensorPtr.split)

lemma InitialiseCamera_keeps:
  "zoomChanged (fst (InitialiseCamera r i)) = zoomChanged i
   \<and> zoomCommand (fst (InitialiseCamera r i)) = zoomCommand i
   \<and> goalHfov (fst (InitialiseCamera r i)) = goalHfov i
   \<and> refHfov (fst (InitialiseCamera r i)) = refHfov i
   \<and> maxZoom (fst (InitialiseCamera r i)) = maxZoom i
   \<and> slewRate (fst (InitialiseCamera r i)) = slewRate i
   \<and> isValidConfig (fst (InitialiseCamera r i)) = isValidConfig i"
  by (subst (1 2 3 4 5 6 7) InitialiseCamera_frame) simp

lemma InitialiseCamera_effects:
  "filter is_fov_write (snd (InitialiseCamera r i)) = []
   \<and> filter is_clamp_warning (snd (InitialiseCamera r i)) = []"
  by (simp add: InitialiseCamera_def Let_def split: option.split SensorPtr.split)

lemma Configure_keeps:
  "zoomChanged (fst (Configure a i)) = zoomChanged i
   \<and> zoomCommand (fst (Configure a i)) = zoomCommand i
   \<and> goalHfov (fst (Configure a i)) = goalHfov i
   \<and> refHfov (fst (Configure a i)) = refHfov i"
  by (simp add: Configure_def Let_def split: option.split)

lemma Configure_default:
  "fst (Configure default_args Impl_init) = Impl_init\<lparr>zoomTopic :=
      ''/model/gimbal/sensor/camera/zoom/cmd_zoom'', isValidConfig := True\<rparr>"
  by (simp add: Configure_def default_args_def Let_def)

lemma resolveGoal_unchanged: "\<not> zoomChanged i \<Longrightarrow> resolveGoal i = (i, [])"
  by (simp add: resolveGoal_def)

lemma resolveGoal_changed:
  "zoomChanged i \<Longrightarrow> fst (resolveGoal i) =
     i\<lparr>goalHfov := refHfov i / std_clamp (zoomCommand i) minZoom (maxZoom i), zoomChanged := False\<rparr>"
  by (simp add: resolveGoal_def Let_def)

lemma resolveGoal_keeps:
  "slewRate (fst (resolveGoal i)) = slewRate i
   \<and> isValidConfig (fst (resolveGoal i)) = isValidConfig i
   \<and> camera (fst (resolveGoal i)) = camera i
   \<and> refHfov (fst (resolveGoal i)) = refHfov i
   \<and> maxZoom (fst (resolveGoal i)) = maxZoom i"
  by (simp add: resolveGoal_def Let_def)

lemma resolveGoal_effects:
  "snd (resolveGoal i) =
     (if zoomChanged i \<and> \<bar>zoomCommand i - std_clamp (zoomCommand i) minZoom (maxZoom i)\<bar> > Fin epsilon
      then [Gzwarn_clamped (zoomCommand i) (std_clamp (zoomCommand i) minZoom (maxZoom i))]
      else [])"
  by (simp add: resolveGoal_def Let_def)

lemma updateFov_exit:
  "\<bar>goalHfov i - HorizontalFov c\<bar> < Fin epsilon \<Longrightarrow> updateFov i cam info c = (c, [])"
  by (simp add: updateFov_def)

lemma updateFov_effects:
  "filter is_clamp_warning (snd (updateFov i cam info c)) = []"
  by (simp add: updateFov_def Let_def)


lemma updateFov_slew:
  assumes "\<not> \<bar>goalHfov i - HorizontalFov c\<bar> < Fin epsilon"
  shows "updateFov i cam info c =
     (SetHorizontalFov
        (FocalLengthToFov (SensorWidth (LensFocalLength c) (HorizontalFov c))
           (newFocalLength (slewRate i) (dt info) (LensFocalLength c)
              (FovToFocalLength (SensorWidth (LensFocalLength c) (HorizontalFov c)) (goalHfov i)))) c,
      [SetChanged, SetHFOV cam
        (FocalLengthToFov (SensorWidth (LensFocalLength c) (HorizontalFov c))
           (newFocalLength (slewRate i) (dt info) (LensFocalLength c)
              (FovToFocalLength (SensorWidth (LensFocalLength c) (HorizontalFov c)) (goalHfov i))))])"
  using assms by (simp add: updateFov_def Let_def)

lemma PreUpdate_invalid: "\<not> isValidConfig i \<Longrightarrow> PreUpdate r info (i, ecm) = ((i, ecm), [])"
  by (simp add: PreUpdate_def)

lemma PreUpdate_acquire:
  "isValidConfig i \<Longrightarrow> camera i = None \<Longrightarrow>
   PreUpdate r info (i, ecm) = ((fst (InitialiseCamera r i), ecm), snd (InitialiseCamera r i))"
  by (simp add: PreUpdate_def split: prod.split)

lemma PreUpdate_no_component:
  "isValidConfig i \<Longrightarrow> camera i = Some cam \<Longrightarrow> Component_Camera ecm = None \<Longrightarrow>
   PreUpdate r info (i, ecm) = ((i, ecm), [])"
  by (simp add: PreUpdate_def)

lemma PreUpdate_no_camera_sdf:
  "isValidConfig i \<Longrightarrow> camera i = Some cam \<Longrightarrow> Component_Camera ecm = Some sensor \<Longrightarrow>
   CameraSensor sensor = None \<Longrightarrow>
   PreUpdate r info (i, ecm) = ((fst (resolveGoal i), ecm), snd (resolveGoal i))"
  by (simp add: PreUpdate_def split: prod.split)

lemma PreUpdate_active:
  "isValidConfig i \<Longrightarrow> camera i = Some cam \<Longrightarrow> Component_Camera ecm = Some sensor \<Longrightarrow>
   CameraSensor sensor = Some c \<Longrightarrow>
   PreUpdate r info (i, ecm) =
     ((fst (resolveGoal i),
       ecm\<lparr>Component_Camera := Some (sensor\<lparr>CameraSensor :=
          Some (fst (updateFov (fst (resolveGoal i)) cam info c))\<rparr>)\<rparr>),
      snd (resolveGoal i) @ snd (updateFov (fst (resolveGoal i)) cam info c))"
  by (simp add: PreUpdate_def split: prod.split)

lemma PreUpdate_impl:
  "fst (fst (PreUpdate r info (i, ecm))) =
     (if \<not> isValidConfig i then i
      else if camera i = None then fst (InitialiseCamera r i)
      else if Component_Camera ecm = None then i
      else fst (resolveGoal i))"
  by (simp add: PreUpdate_def split: prod.split option.split)

lemma cameraHfov_ecm_with: "cameraHfov (ecm_with c) = Some (HorizontalFov c)"
  by (simp add: cameraHfov_def ecm_with_def)

lemma PreUpdate_ecm_with:
  assumes "isValidConfig i" and "camera i = Some cam"
  shows "PreUpdate r info (i, ecm_with c) =
     ((fst (resolveGoal i), ecm_with (fst (updateFov (fst (resolveGoal i)) cam info c))),
      snd (resolveGoal i) @ snd (updateFov (fst (resolveGoal i)) cam info c))"
  using PreUpdate_active [OF assms, of "ecm_with c" "\<lparr>CameraSensor = Some c\<rparr>" c r info]
  by (simp add: ecm_with_def)

section \<open>The tick that acquires the rendering camera\<close>

text \<open>
  C10. On a tick of a configured plugin that does not hold its rendering camera,
  \<^verbatim>\<open>PreUpdate\<close> is \<^verbatim>\<open>InitialiseCamera\<close> and nothing else, whether or not the camera is
  found: the pending command, its flag and the goal are as before, the component
  manager is untouched, and no field of view is written. When a command is pending
  and that tick did acquire the camera, the following tick (with the camera component
  present) resolves the goal from the pending command and clears the flag.
\<close>

theorem acquisition_tick_only_acquires:
  assumes "isValidConfig i" and "camera i = None"
  shows "PreUpdate r info (i, ecm)
           = ((fst (InitialiseCamera r i), ecm), snd (InitialiseCamera r i))
       \<and> zoomChanged (fst (fst (PreUpdate r info (i, ecm)))) = zoomChanged i
       \<and> zoomCommand (fst (fst (PreUpdate r info (i, ecm)))) = zoomCommand i
       \<and> goalHfov (fst (fst (PreUpdate r info (i, ecm)))) = goalHfov i
       \<and> snd (fst (PreUpdate r info (i, ecm))) = ecm
       \<and> filter is_fov_write (snd (PreUpdate r info (i, ecm))) = []
       \<and> filter is_clamp_warning (snd (PreUpdate r info (i, ecm))) = []
       \<and> (zoomChanged i \<and> camera (fst (fst (PreUpdate r info (i, ecm)))) \<noteq> None
            \<and> Component_Camera ecm \<noteq> None \<longrightarrow>
          goalHfov (fst (fst (PreUpdate r2 info2 (fst (PreUpdate r info (i, ecm))))))
            = refHfov i / std_clamp (zoomCommand i) minZoom (maxZoom i)
          \<and> \<not> zoomChanged (fst (fst (PreUpdate r2 info2 (fst (PreUpdate r info (i, ecm)))))))"
proof -
  let ?i1 = "fst (InitialiseCamera r i)"
  have tick: "PreUpdate r info (i, ecm) = ((?i1, ecm), snd (InitialiseCamera r i))"
    using assms by (rule PreUpdate_acquire)
  have keeps: "zoomChanged ?i1 = zoomChanged i" "zoomCommand ?i1 = zoomCommand i"
    "goalHfov ?i1 = goalHfov i" "refHfov ?i1 = refHfov i" "maxZoom ?i1 = maxZoom i"
    "isValidConfig ?i1 = isValidConfig i"
    by (simp_all add: InitialiseCamera_keeps)
  have following: "goalHfov (fst (fst (PreUpdate r2 info2 (?i1, ecm))))
            = refHfov i / std_clamp (zoomCommand i) minZoom (maxZoom i)
          \<and> \<not> zoomChanged (fst (fst (PreUpdate r2 info2 (?i1, ecm))))"
    if "zoomChanged i" "camera ?i1 \<noteq> None" "Component_Camera ecm \<noteq> None"
  proof -
    have "fst (fst (PreUpdate r2 info2 (?i1, ecm))) = fst (resolveGoal ?i1)"
      using that(2,3) assms(1) keeps(6) by (auto simp: PreUpdate_impl)
    moreover have "zoomChanged ?i1"
      using that(1) keeps(1) by simp
    ultimately show ?thesis
      using keeps by (simp add: resolveGoal_changed)
  qed
  show ?thesis
    using tick keeps following by (simp add: InitialiseCamera_effects)
qed

text \<open>
  A command 2 is pending while the renderer becomes ready: the acquiring tick stores
  the camera handle only, and the tick after it sets the goal to 1.
\<close>

theorem acquisition_tick_only_acquires_witness:
  "PreUpdate ready_rendering \<lparr>dt = 1\<rparr>
      (OnZoom (Fin 2) (example_impl\<lparr>scene := None, camera := None\<rparr>),
       ecm_with \<lparr>HorizontalFov = Fin 2, LensFocalLength = Fin 1\<rparr>)
     = ((OnZoom (Fin 2) example_impl\<lparr>camera := Some 7\<rparr>,
         ecm_with \<lparr>HorizontalFov = Fin 2, LensFocalLength = Fin 1\<rparr>), [])
   \<and> goalHfov (fst (fst (PreUpdate ready_rendering \<lparr>dt = 1\<rparr>
        (fst (PreUpdate ready_rendering \<lparr>dt = 1\<rparr>
          (OnZoom (Fin 2) (example_impl\<lparr>scene := None, camera := None\<rparr>),
           ecm_with \<lparr>HorizontalFov = Fin 2, LensFocalLength = Fin 1\<rparr>)))))) = Fin 1"
proof -
  let ?i = "OnZoom (Fin 2) (example_impl\<lparr>scene := None, camera := None\<rparr>)"
  let ?ecm = "ecm_with \<lparr>HorizontalFov = Fin 2, LensFocalLength = Fin 1\<rparr>"
  have v: "isValidConfig ?i" and c: "camera ?i = None"
    by (simp_all add: OnZoom_def example_impl_def Impl_init_def)
  have init: "InitialiseCamera ready_rendering ?i = (OnZoom (Fin 2) example_impl\<lparr>camera := Some 7\<rparr>, [])"
    by (simp add: InitialiseCamera_def ready_rendering_def OnZoom_def example_impl_def
        Impl_init_def Let_def)
  note tick = acquisition_tick_only_acquires [OF v c, of ready_rendering "\<lparr>dt = 1\<rparr>" ?ecm
        ready_rendering "\<lparr>dt = 1\<rparr>"]
  have first: "PreUpdate ready_rendering \<lparr>dt = 1\<rparr> (?i, ?ecm)
      = ((OnZoom (Fin 2) example_impl\<lparr>camera := Some 7\<rparr>, ?ecm), [])"
    using tick init by simp
  have pending: "zoomChanged ?i
      \<and> camera (fst (fst (PreUpdate ready_rendering \<lparr>dt = 1\<rparr> (?i, ?ecm)))) \<noteq> None
      \<and> Component_Camera ?ecm \<noteq> None"
    by (simp add: first) (simp add: OnZoom_def ecm_with_def)
  have "goalHfov (fst (fst (PreUpdate ready_rendering \<lparr>dt = 1\<rparr>
        (fst (PreUpdate ready_rendering \<lparr>dt = 1\<rparr> (?i, ?ecm))))))
      = refHfov ?i / std_clamp (zoomCommand ?i) minZoom (maxZoom ?i)"
    using tick pending by blast
  also have "\<dots> = Fin 1"
    by (simp add: OnZoom_def example_impl_def Impl_init_def std_clamp_def std_min_def std_max_def minZoom_def)
  finally show ?thesis
    using first by simp
qed

section \<open>Render teardown\<close>

lemma step_disabled:
  assumes "\<not> isValidConfig i" and "camera i = None" and "scene i = None"
  shows "\<not> isValidConfig (fst (fst (step e (i, ecm))))
       \<and> camera (fst (fst (step e (i, ecm)))) = None
       \<and> scene (fst (fst (step e (i, ecm)))) = None
       \<and> snd (fst (step e (i, ecm))) = ecm
       \<and> filter is_fov_write (snd (step e (i, ecm))) = []"
  using assms
  by (cases e) (simp_all add: PreUpdate_invalid PostUpdate_def OnZoom_def OnRenderTeardown_def)

lemma run_disabled:
  assumes "\<not> isValidConfig i" and "camera i = None" and "scene i = None"
  shows "\<not> isValidConfig (fst (fst (run evs (i, ecm))))
       \<and> camera (fst (fst (run evs (i, ecm)))) = None
       \<and> scene (fst (fst (run evs (i, ecm)))) = None
       \<and> snd (fst (run evs (i, ecm))) = ecm
       \<and> filter is_fov_write (snd (run evs (i, ecm))) = []"
  using assms
proof (induction evs arbitrary: i)
  case Nil
  then show ?case by simp
next
  case (Cons e evs)
  obtain i1 ecm1 out1 where s: "step e (i, ecm) = ((i1, ecm1), out1)"
    by (metis surj_pair)
  from step_disabled [OF Cons.prems, of e ecm] s
  have d: "\<not> isValidConfig i1" "camera i1 = None" "scene i1 = None" "ecm1 = ecm"
    "filter is_fov_write out1 = []"
    by simp_all
  from Cons.IH [OF d(1,2,3)] d(4,5) s show ?case
    by (simp add: split_beta)
qed

text \<open>
  C5, as the code has it. \<^verbatim>\<open>OnRenderTeardown\<close> releases the camera and the scene and
  clears \<open>isValidConfig\<close>. After it, whatever ticks, zoom commands and teardown events
  follow, the plugin stays disabled: it holds no camera and no scene, it leaves the
  component manager as it is, and it writes no field of view.
\<close>

theorem teardown_disables:
  "\<not> isValidConfig (fst (fst (run evs (fst (OnRenderTeardown i), ecm))))
   \<and> camera (fst (fst (run evs (fst (OnRenderTeardown i), ecm)))) = None
   \<and> scene (fst (fst (run evs (fst (OnRenderTeardown i), ecm)))) = None
   \<and> snd (fst (run evs (fst (OnRenderTeardown i), ecm))) = ecm
   \<and> filter is_fov_write (snd (run evs (fst (OnRenderTeardown i), ecm))) = []"
  by (rule run_disabled) (simp_all add: OnRenderTeardown_def)

text \<open>
  After a teardown, a command and two ticks with a ready renderer acquire nothing and
  leave the camera component alone.
\<close>

theorem teardown_disables_witness:
  "camera (fst (fst (run [E_OnZoom (Fin 2), E_PreUpdate ready_rendering \<lparr>dt = 1\<rparr>,
        E_PostUpdate ''camera'', E_PreUpdate ready_rendering \<lparr>dt = 1\<rparr>]
      (fst (OnRenderTeardown example_impl),
       ecm_with \<lparr>HorizontalFov = Fin 2, LensFocalLength = Fin 1\<rparr>)))) = None
   \<and> snd (fst (run [E_OnZoom (Fin 2), E_PreUpdate ready_rendering \<lparr>dt = 1\<rparr>,
        E_PostUpdate ''camera'', E_PreUpdate ready_rendering \<lparr>dt = 1\<rparr>]
      (fst (OnRenderTeardown example_impl),
       ecm_with \<lparr>HorizontalFov = Fin 2, LensFocalLength = Fin 1\<rparr>)))
     = ecm_with \<lparr>HorizontalFov = Fin 2, LensFocalLength = Fin 1\<rparr>"
  using teardown_disables [of "[E_OnZoom (Fin 2), E_PreUpdate ready_rendering \<lparr>dt = 1\<rparr>,
        E_PostUpdate ''camera'', E_PreUpdate ready_rendering \<lparr>dt = 1\<rparr>]" example_impl
        "ecm_with \<lparr>HorizontalFov = Fin 2, LensFocalLength = Fin 1\<rparr>"]
  by simp

text \<open>
  The claim C5 as stated fails. A configured plugin without a camera acquires it on a
  tick with a ready renderer; after a teardown the same tick acquires nothing, and no
  run of ticks and commands makes the plugin hold a camera or write a field of view
  again.
\<close>

theorem teardown_is_terminal:
  "camera (fst (fst (PreUpdate ready_rendering \<lparr>dt = 1\<rparr>
      (example_impl\<lparr>scene := None, camera := None\<rparr>,
       ecm_with \<lparr>HorizontalFov = Fin 2, LensFocalLength = Fin 1\<rparr>)))) = Some 7
   \<and> camera (fst (fst (PreUpdate ready_rendering \<lparr>dt = 1\<rparr>
      (fst (OnRenderTeardown example_impl),
       ecm_with \<lparr>HorizontalFov = Fin 2, LensFocalLength = Fin 1\<rparr>)))) = None
   \<and> \<not> (\<exists>evs.
        camera (fst (fst (run evs (fst (OnRenderTeardown example_impl),
          ecm_with \<lparr>HorizontalFov = Fin 2, LensFocalLength = Fin 1\<rparr>)))) \<noteq> None
        \<or> filter is_fov_write (snd (run evs (fst (OnRenderTeardown example_impl),
          ecm_with \<lparr>HorizontalFov = Fin 2, LensFocalLength = Fin 1\<rparr>))) \<noteq> [])"
proof -
  let ?ecm = "ecm_with \<lparr>HorizontalFov = Fin 2, LensFocalLength = Fin 1\<rparr>"
  let ?down = "fst (OnRenderTeardown example_impl)"
  have a: "camera (fst (fst (PreUpdate ready_rendering \<lparr>dt = 1\<rparr>
      (example_impl\<lparr>scene := None, camera := None\<rparr>, ?ecm)))) = Some 7"
    by (simp add: PreUpdate_impl InitialiseCamera_def ready_rendering_def example_impl_def
        Impl_init_def Let_def)
  have d: "\<not> isValidConfig ?down" "camera ?down = None" "scene ?down = None"
    by (simp_all add: OnRenderTeardown_def)
  have b: "camera (fst (fst (PreUpdate ready_rendering \<lparr>dt = 1\<rparr> (?down, ?ecm)))) = None"
    using d by (simp add: PreUpdate_invalid)
  have c: "camera (fst (fst (run evs (?down, ?ecm)))) = None
      \<and> filter is_fov_write (snd (run evs (?down, ?ecm))) = []" for evs
    using run_disabled [OF d, of evs ?ecm] by simp
  from a b c show ?thesis by simp
qed

section \<open>The optics conversions in exact arithmetic\<close>

lemma atan2_pos: "0 < x \<Longrightarrow> atan2 y x = arctan (y / x)"
  by (simp add: atan2_def)

lemma tan_half_pos: "0 < fov \<Longrightarrow> fov < pi \<Longrightarrow> 0 < tan (fov / 2)"
  by (rule tan_gt_zero) simp_all

lemma arctan_tan_half: "0 < fov \<Longrightarrow> fov < pi \<Longrightarrow> arctan (tan (fov / 2)) = fov / 2"
  by (rule arctan_tan) simp_all


text \<open>
  The conversions on finite values, in the exact arithmetic of the model: for a
  positive focal length and fields of view in \<open>(0, pi)\<close> the field of view of the goal
  focal length is the goal, and the field of view of the current focal length is the
  current one.
\<close>

lemma SensorWidth_Fin: "SensorWidth (Fin f) (Fin h) = Fin (2 * tan (h / 2) * f)"
  by (simp add: SensorWidth_def)

lemma FovToFocalLength_Fin:
  "tan (g / 2) \<noteq> 0 \<Longrightarrow> FovToFocalLength (Fin w) (Fin g) = Fin (w / (2 * tan (g / 2)))"
  by (simp add: FovToFocalLength_def)

lemma FocalLengthToFov_Fin: "FocalLengthToFov (Fin w) (Fin n) = Fin (2 * atan2 w (2 * n))"
  by (simp add: FocalLengthToFov_def)

lemma FocalLengthToFov_goal:
  assumes "0 < f" and "0 < h" and "h < pi" and "0 < g" and "g < pi"
  shows "FocalLengthToFov (SensorWidth (Fin f) (Fin h))
           (FovToFocalLength (SensorWidth (Fin f) (Fin h)) (Fin g)) = Fin g"
proof -
  have th: "0 < tan (h / 2)" and tg: "0 < tan (g / 2)"
    using assms by (simp_all add: tan_half_pos)
  let ?w = "2 * tan (h / 2) * f"
  let ?G = "?w / (2 * tan (g / 2))"
  have w: "0 < ?w"
    using th assms(1) by simp
  have G: "0 < 2 * ?G"
    using th tg assms(1) by simp
  have "?w / (2 * ?G) = tan (g / 2)"
    using th tg assms(1) by simp
  then have "arctan (?w / (2 * ?G)) = g / 2"
    using arctan_tan_half [OF assms(4,5)] by simp
  then have key: "2 * atan2 ?w (2 * ?G) = g"
    using atan2_pos [OF G, of ?w] by simp
  have "tan (g / 2) \<noteq> 0"
    using tg by simp
  then have goal: "FovToFocalLength (Fin ?w) (Fin g) = Fin ?G"
    by (rule FovToFocalLength_Fin)
  show ?thesis
    by (simp only: SensorWidth_Fin goal FocalLengthToFov_Fin key)
qed




lemma updateFov_instant:
  assumes "\<not> isfinite (slewRate i)"
    and "LensFocalLength c = Fin f" and "HorizontalFov c = Fin h" and "goalHfov i = Fin g"
    and "0 < f" and "0 < h" and "h < pi" and "0 < g" and "g < pi"
    and "\<not> \<bar>goalHfov i - HorizontalFov c\<bar> < Fin epsilon"
  shows "updateFov i cam info c
     = (c\<lparr>HorizontalFov := Fin g\<rparr>, [SetChanged, SetHFOV cam (Fin g)])"
  using updateFov_slew [OF assms(10), of cam info]
    FocalLengthToFov_goal [OF assms(5,6,7,8,9)] assms(1,2,3,4)
  by (simp add: newFocalLength_def SetHorizontalFov_def)

section \<open>Change signals\<close>




section \<open>No command\<close>

lemma PreUpdate_at_goal:
  assumes "\<not> zoomChanged i" and "cameraHfov ecm = Some h" and "\<bar>goalHfov i - h\<bar> < Fin epsilon"
  shows "snd (fst (PreUpdate r info (i, ecm))) = ecm
       \<and> snd (PreUpdate r info (i, ecm)) = snd (if isValidConfig i \<and> camera i = None
             then InitialiseCamera r i else (i, []))
       \<and> \<not> zoomChanged (fst (fst (PreUpdate r info (i, ecm))))
       \<and> goalHfov (fst (fst (PreUpdate r info (i, ecm)))) = goalHfov i
       \<and> refHfov (fst (fst (PreUpdate r info (i, ecm)))) = refHfov i"
proof (cases "isValidConfig i")
  case False
  with assms show ?thesis by (simp add: PreUpdate_invalid)
next
  case valid: True
  show ?thesis
  proof (cases "camera i")
    case None
    with valid assms show ?thesis by (simp add: PreUpdate_acquire InitialiseCamera_keeps)
  next
    case (Some cam)
    from assms(2) obtain sensor c where
      comp: "Component_Camera ecm = Some sensor" and cs: "CameraSensor sensor = Some c"
      and h: "HorizontalFov c = h"
      by (auto simp: cameraHfov_def split: option.splits)
    have same: "ecm\<lparr>Component_Camera := Some (sensor\<lparr>CameraSensor := Some c\<rparr>)\<rparr> = ecm"
      using comp cs by simp
    from valid Some comp cs h assms(1,3) same show ?thesis
      by (simp add: PreUpdate_active resolveGoal_unchanged updateFov_exit)
  qed
qed

lemma step_no_command:
  assumes "\<not> is_OnZoom e" and "\<not> zoomChanged i" and "cameraHfov ecm = Some h"
    and "\<bar>goalHfov i - h\<bar> < Fin epsilon"
  shows "snd (fst (step e (i, ecm))) = ecm
       \<and> filter is_fov_write (snd (step e (i, ecm))) = []
       \<and> \<not> zoomChanged (fst (fst (step e (i, ecm))))
       \<and> goalHfov (fst (fst (step e (i, ecm)))) = goalHfov i
       \<and> refHfov (fst (fst (step e (i, ecm)))) = refHfov i"
proof (cases e)
  case (E_PreUpdate r info)
  with PreUpdate_at_goal [OF assms(2,3,4), of r info] show ?thesis
    by (simp add: InitialiseCamera_effects)
next
  case (E_PostUpdate scoped)
  with assms show ?thesis by (simp add: PostUpdate_def)
next
  case (E_OnZoom z)
  with assms(1) show ?thesis by simp
next
  case E_RenderTeardown
  with assms show ?thesis by (simp add: OnRenderTeardown_def)
qed

lemma run_no_command:
  assumes "\<forall>e \<in> set evs. \<not> is_OnZoom e" and "\<not> zoomChanged i"
    and "cameraHfov ecm = Some h" and "\<bar>goalHfov i - h\<bar> < Fin epsilon"
  shows "snd (fst (run evs (i, ecm))) = ecm
       \<and> filter is_fov_write (snd (run evs (i, ecm))) = []
       \<and> goalHfov (fst (fst (run evs (i, ecm)))) = goalHfov i
       \<and> refHfov (fst (fst (run evs (i, ecm)))) = refHfov i"
  using assms
proof (induction evs arbitrary: i)
  case Nil
  then show ?case by simp
next
  case (Cons e evs)
  obtain i1 ecm1 out1 where s: "step e (i, ecm) = ((i1, ecm1), out1)"
    by (metis surj_pair)
  from Cons.prems(1) have e: "\<not> is_OnZoom e" and rest: "\<forall>e \<in> set evs. \<not> is_OnZoom e"
    by simp_all
  from step_no_command [OF e Cons.prems(2,3,4)] s
  have d: "ecm1 = ecm" "filter is_fov_write out1 = []" "\<not> zoomChanged i1"
    "goalHfov i1 = goalHfov i" "refHfov i1 = refHfov i"
    by simp_all
  from Cons.prems(4) d(4) have near: "\<bar>goalHfov i1 - h\<bar> < Fin epsilon"
    by simp
  from Cons.IH [OF rest d(3) Cons.prems(3) near] d s show ?case
    by (simp add: split_beta)
qed

text \<open>
  C9, as the code has it. For a plugin configured from its default state, whose
  camera starts at the reference field of view (which is also the default goal): as
  long as no zoom message arrives, after any run of ticks and other calls the component
  manager is as it was, the camera is at the reference field of view, and no change
  was signalled and no field of view written.
\<close>

theorem no_command_no_write:
  assumes "\<forall>e \<in> set evs. \<not> is_OnZoom e"
    and "cameraHfov ecm = Some (refHfov Impl_init)"
  shows "snd (fst (run evs (fst (Configure a Impl_init), ecm))) = ecm
       \<and> cameraHfov (snd (fst (run evs (fst (Configure a Impl_init), ecm))))
           = Some (refHfov (fst (fst (run evs (fst (Configure a Impl_init), ecm)))))
       \<and> filter is_fov_write (snd (run evs (fst (Configure a Impl_init), ecm))) = []"
proof -
  let ?i = "fst (Configure a Impl_init)"
  have z: "\<not> zoomChanged ?i"
    by (simp add: Configure_keeps) (simp add: Impl_init_def)
  have g: "goalHfov ?i = refHfov Impl_init" and r: "refHfov ?i = refHfov Impl_init"
    by (simp_all add: Configure_keeps) (simp add: Impl_init_def)
  have near: "\<bar>goalHfov ?i - refHfov Impl_init\<bar> < Fin epsilon"
    using g epsilon_small by (simp add: Impl_init_def)
  from run_no_command [OF assms(1) z assms(2) near] r assms(2) show ?thesis
    by simp
qed

text \<open>
  A camera at a field of view of 2, the reference: a run that acquires the rendering
  camera and ticks once more writes nothing.
\<close>

theorem no_command_no_write_witness:
  "snd (fst (run [E_PostUpdate ''camera'', E_PreUpdate ready_rendering \<lparr>dt = 1\<rparr>,
        E_PreUpdate ready_rendering \<lparr>dt = 1\<rparr>]
      (fst (Configure default_args Impl_init),
       ecm_with \<lparr>HorizontalFov = Fin 2, LensFocalLength = Fin 1\<rparr>)))
     = ecm_with \<lparr>HorizontalFov = Fin 2, LensFocalLength = Fin 1\<rparr>
   \<and> filter is_fov_write (snd (run [E_PostUpdate ''camera'',
        E_PreUpdate ready_rendering \<lparr>dt = 1\<rparr>, E_PreUpdate ready_rendering \<lparr>dt = 1\<rparr>]
      (fst (Configure default_args Impl_init),
       ecm_with \<lparr>HorizontalFov = Fin 2, LensFocalLength = Fin 1\<rparr>))) = []"
proof -
  let ?evs = "[E_PostUpdate ''camera'', E_PreUpdate ready_rendering \<lparr>dt = 1\<rparr>,
        E_PreUpdate ready_rendering \<lparr>dt = 1\<rparr>]"
  let ?ecm = "ecm_with \<lparr>HorizontalFov = Fin 2, LensFocalLength = Fin 1\<rparr>"
  have a: "\<forall>e \<in> set ?evs. \<not> is_OnZoom e"
    by simp
  have b: "cameraHfov ?ecm = Some (refHfov Impl_init)"
    by (simp add: cameraHfov_ecm_with Impl_init_def)
  from no_command_no_write [OF a b, of default_args] show ?thesis
    by simp
qed

text \<open>
  The claim C9 as stated fails for a camera that does not start at the reference field
  of view: with no command at all, the first tick after the acquisition moves a camera
  at a field of view of 1 to the default goal 2 and signals the change.
\<close>

theorem default_goal_is_written_without_command:
  "filter is_OnZoom [E_PostUpdate ''camera'', E_PreUpdate ready_rendering \<lparr>dt = 1\<rparr>,
        E_PreUpdate ready_rendering \<lparr>dt = 1\<rparr>] = []
   \<and> snd (fst (run [E_PostUpdate ''camera'', E_PreUpdate ready_rendering \<lparr>dt = 1\<rparr>,
        E_PreUpdate ready_rendering \<lparr>dt = 1\<rparr>]
      (fst (Configure default_args Impl_init),
       ecm_with \<lparr>HorizontalFov = Fin 1, LensFocalLength = Fin 1\<rparr>)))
     = ecm_with \<lparr>HorizontalFov = Fin 2, LensFocalLength = Fin 1\<rparr>
   \<and> filter is_fov_write (snd (run [E_PostUpdate ''camera'',
        E_PreUpdate ready_rendering \<lparr>dt = 1\<rparr>, E_PreUpdate ready_rendering \<lparr>dt = 1\<rparr>]
      (fst (Configure default_args Impl_init),
       ecm_with \<lparr>HorizontalFov = Fin 1, LensFocalLength = Fin 1\<rparr>)))
     = [SetChanged, SetHFOV 7 (Fin 2)]"
proof -
  let ?c = "\<lparr>HorizontalFov = Fin 1, LensFocalLength = Fin 1\<rparr>"
  let ?i0 = "Impl_init\<lparr>zoomTopic := ''/model/gimbal/sensor/camera/zoom/cmd_zoom'',
      isValidConfig := True\<rparr>"
  let ?i1 = "?i0\<lparr>cameraName := ''camera''\<rparr>"
  let ?i2 = "?i1\<lparr>scene := Some 0, camera := Some 7\<rparr>"
  have post: "PostUpdate ''camera'' ?i0 = (?i1, [Gzdbg_camera_name ''camera''])"
    by (simp add: PostUpdate_def Impl_init_def)
  have init: "InitialiseCamera ready_rendering ?i1 = (?i2, [])"
    by (simp add: InitialiseCamera_def ready_rendering_def Impl_init_def Let_def)
  have acquire: "PreUpdate ready_rendering \<lparr>dt = 1\<rparr> (?i1, ecm_with ?c) = ((?i2, ecm_with ?c), [])"
    using PreUpdate_acquire [of ?i1 ready_rendering "\<lparr>dt = 1\<rparr>" "ecm_with ?c"] init
    by (simp add: Impl_init_def)
  have r: "resolveGoal ?i2 = (?i2, [])"
    by (simp add: resolveGoal_unchanged Impl_init_def)
  have far: "\<not> \<bar>goalHfov ?i2 - HorizontalFov ?c\<bar> < Fin epsilon"
    using epsilon_small by (simp add: Impl_init_def)
  have u: "updateFov ?i2 7 \<lparr>dt = 1\<rparr> ?c = (?c\<lparr>HorizontalFov := Fin 2\<rparr>, [SetChanged, SetHFOV 7 (Fin 2)])"
    using updateFov_instant [of ?i2 ?c 1 1 2 7 "\<lparr>dt = 1\<rparr>"] far pi_ge_three
    by (simp add: Impl_init_def)
  have written: "PreUpdate ready_rendering \<lparr>dt = 1\<rparr> (?i2, ecm_with ?c)
      = ((?i2, ecm_with (?c\<lparr>HorizontalFov := Fin 2\<rparr>)), [SetChanged, SetHFOV 7 (Fin 2)])"
    using PreUpdate_ecm_with [of ?i2 7 ready_rendering "\<lparr>dt = 1\<rparr>" ?c] r u
    by (simp add: Impl_init_def)
  show ?thesis
    by (simp add: Configure_default post acquire written)
qed

section \<open>Goal resolution\<close>

text \<open>
  \<^verbatim>\<open>std::clamp\<close> to \<open>[1, maxZoom]\<close> with \<open>maxZoom \<ge> 1\<close>, value by value: a finite command
  below 1 gives 1, one above \<open>maxZoom\<close> gives \<open>maxZoom\<close>, one in between is left alone;
  the infinities give the bounds; a NaN comes out as NaN.
\<close>

lemma std_clamp_Fin:
  assumes "Fin 1 \<le> hi"
  shows "std_clamp (Fin x) (Fin 1) hi
       = (if x < 1 then Fin 1 else if hi < Fin x then hi else Fin x)"
  using assms by (cases hi) (auto simp: std_clamp_def std_min_def std_max_def)

lemma std_clamp_PInf: "Fin 1 \<le> hi \<Longrightarrow> std_clamp PInf (Fin 1) hi = hi"
  by (cases hi) (auto simp: std_clamp_def std_min_def std_max_def)

lemma std_clamp_NInf: "Fin 1 \<le> hi \<Longrightarrow> std_clamp NInf (Fin 1) hi = Fin 1"
  by (cases hi) (auto simp: std_clamp_def std_min_def std_max_def)

lemma std_clamp_NaN: "std_clamp NaN lo hi = NaN"
  by (cases lo; cases hi) (simp_all add: std_clamp_def std_min_def std_max_def)

lemma std_clamp_range:
  assumes "Fin 1 \<le> hi" and "v \<noteq> NaN"
  shows "Fin 1 \<le> std_clamp v (Fin 1) hi \<and> std_clamp v (Fin 1) hi \<le> hi"
  using assms by (cases hi; cases v) (auto simp: std_clamp_def std_min_def std_max_def)

lemma PreUpdate_goalHfov:
  "goalHfov (fst (fst (PreUpdate r info (i, ecm)))) =
     (if isValidConfig i \<and> camera i \<noteq> None \<and> Component_Camera ecm \<noteq> None \<and> zoomChanged i
      then refHfov i / std_clamp (zoomCommand i) minZoom (maxZoom i)
      else goalHfov i)"
proof -
  have "goalHfov (fst (resolveGoal i)) =
      (if zoomChanged i then refHfov i / std_clamp (zoomCommand i) minZoom (maxZoom i)
       else goalHfov i)"
    by (simp add: resolveGoal_def Let_def)
  then show ?thesis
    by (simp add: PreUpdate_impl InitialiseCamera_keeps)
qed

lemma PreUpdate_clamp_warnings:
  "filter is_clamp_warning (snd (PreUpdate r info (i, ecm))) =
     (if isValidConfig i \<and> camera i \<noteq> None \<and> Component_Camera ecm \<noteq> None \<and> zoomChanged i
      then snd (resolveGoal i) else [])"
proof (cases "isValidConfig i")
  case False
  then show ?thesis by (simp add: PreUpdate_invalid)
next
  case valid: True
  have only: "filter is_clamp_warning (snd (resolveGoal i)) = snd (resolveGoal i)"
    by (simp add: resolveGoal_effects)
  have none: "\<not> zoomChanged i \<Longrightarrow> snd (resolveGoal i) = []"
    by (simp add: resolveGoal_unchanged)
  show ?thesis
  proof (cases "camera i")
    case None
    with valid show ?thesis by (simp add: PreUpdate_acquire InitialiseCamera_effects)
  next
    case (Some cam)
    show ?thesis
    proof (cases "Component_Camera ecm")
      case None
      with valid Some show ?thesis by (simp add: PreUpdate_no_component)
    next
      case comp: (Some sensor)
      show ?thesis
      proof (cases "CameraSensor sensor")
        case None
        with valid Some comp only none show ?thesis
          by (simp add: PreUpdate_no_camera_sdf)
      next
        case (Some c)
        with valid \<open>camera i = Some cam\<close> comp only none show ?thesis
          by (simp add: PreUpdate_active updateFov_effects)
      qed
    qed
  qed
qed

text \<open>
  C2, as the code has it. With \<open>maxZoom \<ge> 1\<close>, a tick that detects a command change
  (it gets past the guards on the configuration, the rendering camera and the camera
  component, and \<open>zoomChanged\<close> is set) sets the goal to the reference field of view
  divided by the clamped command: by 1 for a command below 1, by \<open>maxZoom\<close> for a
  command above \<open>maxZoom\<close>, by the command itself in between. A tick that detects
  no command change leaves the goal as it is. Neither side reads the camera's current
  field of view. For a command that is not NaN the clamped factor lies in
  \<open>[1, maxZoom]\<close>.
\<close>

theorem goal_is_clamped_command:
  assumes "Fin 1 \<le> maxZoom i"
  shows "(isValidConfig i \<and> camera i \<noteq> None \<and> Component_Camera ecm \<noteq> None \<and> zoomChanged i \<longrightarrow>
          (\<forall>x. zoomCommand i = Fin x \<longrightarrow>
             goalHfov (fst (fst (PreUpdate r info (i, ecm))))
               = refHfov i / (if x < 1 then Fin 1
                              else if maxZoom i < Fin x then maxZoom i else Fin x))
        \<and> (zoomCommand i = PInf \<longrightarrow>
             goalHfov (fst (fst (PreUpdate r info (i, ecm)))) = refHfov i / maxZoom i)
        \<and> (zoomCommand i = NInf \<longrightarrow>
             goalHfov (fst (fst (PreUpdate r info (i, ecm)))) = refHfov i / Fin 1))
       \<and> (\<not> (isValidConfig i \<and> camera i \<noteq> None \<and> Component_Camera ecm \<noteq> None
              \<and> zoomChanged i) \<longrightarrow>
          goalHfov (fst (fst (PreUpdate r info (i, ecm)))) = goalHfov i)
       \<and> (zoomCommand i \<noteq> NaN \<longrightarrow>
          Fin 1 \<le> std_clamp (zoomCommand i) minZoom (maxZoom i)
          \<and> std_clamp (zoomCommand i) minZoom (maxZoom i) \<le> maxZoom i)"
proof (intro conjI impI allI)
  fix x
  assume "isValidConfig i \<and> camera i \<noteq> None \<and> Component_Camera ecm \<noteq> None \<and> zoomChanged i"
    and "zoomCommand i = Fin x"
  then show "goalHfov (fst (fst (PreUpdate r info (i, ecm))))
      = refHfov i / (if x < 1 then Fin 1 else if maxZoom i < Fin x then maxZoom i else Fin x)"
    using assms
    by (cases "maxZoom i")
      (auto simp: PreUpdate_goalHfov std_clamp_def std_min_def std_max_def minZoom_def)
next
  assume "isValidConfig i \<and> camera i \<noteq> None \<and> Component_Camera ecm \<noteq> None \<and> zoomChanged i"
    and "zoomCommand i = PInf"
  then show "goalHfov (fst (fst (PreUpdate r info (i, ecm)))) = refHfov i / maxZoom i"
    using assms
    by (cases "maxZoom i")
      (auto simp: PreUpdate_goalHfov std_clamp_def std_min_def std_max_def minZoom_def)
next
  assume "isValidConfig i \<and> camera i \<noteq> None \<and> Component_Camera ecm \<noteq> None \<and> zoomChanged i"
    and "zoomCommand i = NInf"
  then show "goalHfov (fst (fst (PreUpdate r info (i, ecm)))) = refHfov i / Fin 1"
    using assms
    by (cases "maxZoom i")
      (auto simp: PreUpdate_goalHfov std_clamp_def std_min_def std_max_def minZoom_def)
next
  assume "\<not> (isValidConfig i \<and> camera i \<noteq> None \<and> Component_Camera ecm \<noteq> None \<and> zoomChanged i)"
  then show "goalHfov (fst (fst (PreUpdate r info (i, ecm)))) = goalHfov i"
    by (simp only: PreUpdate_goalHfov if_False)
next
  assume "zoomCommand i \<noteq> NaN"
  then show "Fin 1 \<le> std_clamp (zoomCommand i) minZoom (maxZoom i)"
    using std_clamp_range [OF assms] by (simp add: minZoom_def)
next
  assume "zoomCommand i \<noteq> NaN"
  then show "std_clamp (zoomCommand i) minZoom (maxZoom i) \<le> maxZoom i"
    using std_clamp_range [OF assms] by (simp add: minZoom_def)
qed

text \<open>
  Scenario B and two more commands with \<open>maxZoom = 10\<close>: the command 20 gives the goal
  \<open>2 / 10\<close>, the command 4 the goal \<open>2 / 4\<close>, the command 0 the goal 2; and a
  tick with no pending command keeps the goal.
\<close>

theorem goal_is_clamped_command_witness:
  "goalHfov (fst (fst (PreUpdate no_rendering \<lparr>dt = 1\<rparr>
      (OnZoom (Fin 20) example_impl,
       ecm_with \<lparr>HorizontalFov = Fin 2, LensFocalLength = Fin 1\<rparr>)))) = Fin (2 / 10)
   \<and> goalHfov (fst (fst (PreUpdate no_rendering \<lparr>dt = 1\<rparr>
      (OnZoom (Fin 4) example_impl,
       ecm_with \<lparr>HorizontalFov = Fin 2, LensFocalLength = Fin 1\<rparr>)))) = Fin (2 / 4)
   \<and> goalHfov (fst (fst (PreUpdate no_rendering \<lparr>dt = 1\<rparr>
      (OnZoom (Fin 0) example_impl,
       ecm_with \<lparr>HorizontalFov = Fin 2, LensFocalLength = Fin 1\<rparr>)))) = Fin 2
   \<and> goalHfov (fst (fst (PreUpdate no_rendering \<lparr>dt = 1\<rparr>
      (example_impl\<lparr>goalHfov := Fin (2 / 4)\<rparr>,
       ecm_with \<lparr>HorizontalFov = Fin 2, LensFocalLength = Fin 1\<rparr>)))) = Fin (2 / 4)
   \<and> Fin 1 \<le> std_clamp (Fin 20) minZoom (Fin 10)
   \<and> std_clamp (Fin 20) minZoom (Fin 10) \<le> Fin 10"
proof -
  let ?ecm = "ecm_with \<lparr>HorizontalFov = Fin 2, LensFocalLength = Fin 1\<rparr>"
  have m: "Fin 1 \<le> maxZoom (OnZoom z example_impl)" for z
    by (simp add: OnZoom_def example_impl_def Impl_init_def)
  have m0: "Fin 1 \<le> maxZoom (example_impl\<lparr>goalHfov := Fin (2 / 4)\<rparr>)"
    by (simp add: example_impl_def Impl_init_def)
  have d: "isValidConfig (OnZoom z example_impl) \<and> camera (OnZoom z example_impl) \<noteq> None
      \<and> Component_Camera ?ecm \<noteq> None \<and> zoomChanged (OnZoom z example_impl)" for z
    by (simp add: OnZoom_def example_impl_def Impl_init_def ecm_with_def)
  have z: "zoomCommand (OnZoom z example_impl) = z" for z
    by (simp add: OnZoom_def)
  have v: "refHfov (OnZoom z example_impl) = Fin 2 \<and> maxZoom (OnZoom z example_impl) = Fin 10"
    for z
    by (simp add: OnZoom_def example_impl_def Impl_init_def)
  have a: "goalHfov (fst (fst (PreUpdate no_rendering \<lparr>dt = 1\<rparr>
      (OnZoom (Fin 20) example_impl, ?ecm)))) = Fin (2 / 10)"
    using goal_is_clamped_command [OF m, of "Fin 20" ?ecm no_rendering "\<lparr>dt = 1\<rparr>"]
      d [of "Fin 20"] z [of "Fin 20"] v [of "Fin 20"]
    by simp
  have b: "goalHfov (fst (fst (PreUpdate no_rendering \<lparr>dt = 1\<rparr>
      (OnZoom (Fin 4) example_impl, ?ecm)))) = Fin (2 / 4)"
    using goal_is_clamped_command [OF m, of "Fin 4" ?ecm no_rendering "\<lparr>dt = 1\<rparr>"]
      d [of "Fin 4"] z [of "Fin 4"] v [of "Fin 4"]
    by simp
  have c: "goalHfov (fst (fst (PreUpdate no_rendering \<lparr>dt = 1\<rparr>
      (OnZoom (Fin 0) example_impl, ?ecm)))) = Fin 2"
    using goal_is_clamped_command [OF m, of "Fin 0" ?ecm no_rendering "\<lparr>dt = 1\<rparr>"]
      d [of "Fin 0"] z [of "Fin 0"] v [of "Fin 0"]
    by simp
  have e: "goalHfov (fst (fst (PreUpdate no_rendering \<lparr>dt = 1\<rparr>
      (example_impl\<lparr>goalHfov := Fin (2 / 4)\<rparr>, ?ecm)))) = Fin (2 / 4)"
    using goal_is_clamped_command [OF m0, of ?ecm no_rendering "\<lparr>dt = 1\<rparr>"]
    by (simp add: example_impl_def Impl_init_def)
  have f: "Fin 1 \<le> std_clamp (Fin 20) minZoom (Fin 10)
      \<and> std_clamp (Fin 20) minZoom (Fin 10) \<le> Fin 10"
    using goal_is_clamped_command [OF m, of "Fin 20" ?ecm no_rendering "\<lparr>dt = 1\<rparr>"]
      z [of "Fin 20"] v [of "Fin 20"]
    by simp
  from a b c e f show ?thesis
    by (intro conjI) simp_all
qed

text \<open>
  The claim C2 as stated fails for a NaN command, which \<^verbatim>\<open>OnZoom\<close> stores like any
  other: the clamp returns NaN, which is not in \<open>[1, maxZoom]\<close>, and the goal becomes
  NaN.
\<close>

theorem nan_command_is_not_clamped:
  "std_clamp (zoomCommand (OnZoom NaN example_impl)) minZoom (maxZoom (OnZoom NaN example_impl))
     = NaN
   \<and> \<not> Fin 1 \<le> std_clamp (zoomCommand (OnZoom NaN example_impl)) minZoom
                  (maxZoom (OnZoom NaN example_impl))
   \<and> \<not> std_clamp (zoomCommand (OnZoom NaN example_impl)) minZoom
          (maxZoom (OnZoom NaN example_impl)) \<le> maxZoom (OnZoom NaN example_impl)
   \<and> goalHfov (fst (fst (PreUpdate no_rendering \<lparr>dt = 1\<rparr>
        (OnZoom NaN example_impl,
         ecm_with \<lparr>HorizontalFov = Fin 2, LensFocalLength = Fin 1\<rparr>)))) = NaN"
  by (simp add: PreUpdate_goalHfov std_clamp_NaN OnZoom_def example_impl_def Impl_init_def
      ecm_with_def)

lemma detected_warnings:
  assumes "isValidConfig i \<and> camera i \<noteq> None \<and> Component_Camera ecm \<noteq> None \<and> zoomChanged i"
    and "std_clamp (zoomCommand i) minZoom (maxZoom i) = c"
  shows "filter is_clamp_warning (snd (PreUpdate r info (i, ecm)))
           = (if \<bar>zoomCommand i - c\<bar> > Fin epsilon then [Gzwarn_clamped (zoomCommand i) c] else [])
       \<and> goalHfov (fst (fst (PreUpdate r info (i, ecm)))) = refHfov i / c"
  using assms by (simp add: PreUpdate_clamp_warnings PreUpdate_goalHfov resolveGoal_effects)

text \<open>
  C8, as the code has it. A tick that detects no command change prints no clamp
  warning. One that does computes \<open>c = min (max z 1) maxZoom\<close> from the command \<open>z\<close>,
  prints one warning naming \<open>z\<close> and \<open>c\<close> exactly when \<open>\<bar>z - c\<bar>\<close> exceeds machine
  epsilon, and goes on to divide the reference field of view by \<open>c\<close>. With
  \<open>maxZoom \<ge> 1\<close> this means: for a command in \<open>[1, maxZoom]\<close> no warning, and the
  command itself is the divisor; for a command \<open>x\<close> below 1 a warning naming \<open>x\<close> and 1
  exactly when \<open>1 - x\<close> exceeds machine epsilon, and the divisor 1; for a command \<open>x\<close>
  above \<open>maxZoom = m\<close> a warning naming \<open>x\<close> and \<open>m\<close> exactly when \<open>x - m\<close> exceeds
  machine epsilon, and the divisor \<open>m\<close>; an infinite command is reported as clamped
  to the bound on its side, unless that bound is the same infinity.
\<close>

theorem clamp_warning:
  "(\<not> (isValidConfig i \<and> camera i \<noteq> None \<and> Component_Camera ecm \<noteq> None
              \<and> zoomChanged i) \<longrightarrow>
          filter is_clamp_warning (snd (PreUpdate r info (i, ecm))) = [])
   \<and> (isValidConfig i \<and> camera i \<noteq> None \<and> Component_Camera ecm \<noteq> None \<and> zoomChanged i \<longrightarrow>
          (\<forall>l c. l = (if zoomCommand i < minZoom then minZoom else zoomCommand i)
                 \<and> c = (if maxZoom i < l then maxZoom i else l) \<longrightarrow>
             filter is_clamp_warning (snd (PreUpdate r info (i, ecm)))
               = (if Fin epsilon < \<bar>zoomCommand i - c\<bar>
                  then [Gzwarn_clamped (zoomCommand i) c] else [])
             \<and> goalHfov (fst (fst (PreUpdate r info (i, ecm)))) = refHfov i / c))
   \<and> (Fin 1 \<le> maxZoom i
        \<and> isValidConfig i \<and> camera i \<noteq> None \<and> Component_Camera ecm \<noteq> None \<and> zoomChanged i \<longrightarrow>
          (\<forall>x. zoomCommand i = Fin x \<and> 1 \<le> x \<and> Fin x \<le> maxZoom i \<longrightarrow>
             filter is_clamp_warning (snd (PreUpdate r info (i, ecm))) = []
             \<and> goalHfov (fst (fst (PreUpdate r info (i, ecm)))) = refHfov i / Fin x)
        \<and> (\<forall>x. zoomCommand i = Fin x \<and> x < 1 \<longrightarrow>
             filter is_clamp_warning (snd (PreUpdate r info (i, ecm)))
               = (if epsilon < 1 - x then [Gzwarn_clamped (Fin x) (Fin 1)] else [])
             \<and> goalHfov (fst (fst (PreUpdate r info (i, ecm)))) = refHfov i / Fin 1)
        \<and> (\<forall>x m. zoomCommand i = Fin x \<and> maxZoom i = Fin m \<and> m < x \<longrightarrow>
             filter is_clamp_warning (snd (PreUpdate r info (i, ecm)))
               = (if epsilon < x - m then [Gzwarn_clamped (Fin x) (Fin m)] else [])
             \<and> goalHfov (fst (fst (PreUpdate r info (i, ecm)))) = refHfov i / Fin m)
        \<and> (zoomCommand i = PInf \<longrightarrow>
             filter is_clamp_warning (snd (PreUpdate r info (i, ecm)))
               = (if maxZoom i = PInf then [] else [Gzwarn_clamped PInf (maxZoom i)])
             \<and> goalHfov (fst (fst (PreUpdate r info (i, ecm)))) = refHfov i / maxZoom i)
        \<and> (zoomCommand i = NInf \<longrightarrow>
             filter is_clamp_warning (snd (PreUpdate r info (i, ecm)))
               = [Gzwarn_clamped NInf (Fin 1)]
             \<and> goalHfov (fst (fst (PreUpdate r info (i, ecm)))) = refHfov i / Fin 1))"
proof (intro conjI impI allI; (elim conjE)?)
  assume "\<not> (isValidConfig i \<and> camera i \<noteq> None \<and> Component_Camera ecm \<noteq> None \<and> zoomChanged i)"
  then show "filter is_clamp_warning (snd (PreUpdate r info (i, ecm))) = []"
    by (simp only: PreUpdate_clamp_warnings if_False)
next
  fix l c
  assume d: "isValidConfig i" "camera i \<noteq> None" "Component_Camera ecm \<noteq> None" "zoomChanged i"
    and l: "l = (if zoomCommand i < minZoom then minZoom else zoomCommand i)"
    and c: "c = (if maxZoom i < l then maxZoom i else l)"
  from l c have c': "std_clamp (zoomCommand i) minZoom (maxZoom i) = c"
    by (simp add: std_clamp_def std_min_def std_max_def)
  from d have d': "isValidConfig i \<and> camera i \<noteq> None \<and> Component_Camera ecm \<noteq> None \<and> zoomChanged i"
    by simp
  from detected_warnings [OF d' c', of r info]
  show "filter is_clamp_warning (snd (PreUpdate r info (i, ecm)))
      = (if Fin epsilon < \<bar>zoomCommand i - c\<bar> then [Gzwarn_clamped (zoomCommand i) c] else [])"
    and "goalHfov (fst (fst (PreUpdate r info (i, ecm)))) = refHfov i / c"
    by simp_all
next
  fix x
  assume m: "Fin 1 \<le> maxZoom i"
    and d: "isValidConfig i" "camera i \<noteq> None" "Component_Camera ecm \<noteq> None" "zoomChanged i"
    and x: "zoomCommand i = Fin x" "1 \<le> x" "Fin x \<le> maxZoom i"
  from d have d': "isValidConfig i \<and> camera i \<noteq> None \<and> Component_Camera ecm \<noteq> None \<and> zoomChanged i"
    by simp
  from x have "\<not> maxZoom i < Fin x"
    by (cases "maxZoom i") auto
  with x have c: "std_clamp (zoomCommand i) minZoom (maxZoom i) = Fin x"
    using std_clamp_Fin [OF m, of x] by (simp add: minZoom_def)
  from detected_warnings [OF d' c, of r info] x epsilon_small
  show "filter is_clamp_warning (snd (PreUpdate r info (i, ecm))) = []"
    and "goalHfov (fst (fst (PreUpdate r info (i, ecm)))) = refHfov i / Fin x"
    by simp_all
next
  fix x
  assume m: "Fin 1 \<le> maxZoom i"
    and d: "isValidConfig i" "camera i \<noteq> None" "Component_Camera ecm \<noteq> None" "zoomChanged i"
    and x: "zoomCommand i = Fin x" "x < 1"
  from d have d': "isValidConfig i \<and> camera i \<noteq> None \<and> Component_Camera ecm \<noteq> None \<and> zoomChanged i"
    by simp
  from x have c: "std_clamp (zoomCommand i) minZoom (maxZoom i) = Fin 1"
    using std_clamp_Fin [OF m, of x] by (simp add: minZoom_def)
  from detected_warnings [OF d' c, of r info] x
  show "filter is_clamp_warning (snd (PreUpdate r info (i, ecm)))
      = (if epsilon < 1 - x then [Gzwarn_clamped (Fin x) (Fin 1)] else [])"
    and "goalHfov (fst (fst (PreUpdate r info (i, ecm)))) = refHfov i / Fin 1"
    by simp_all
next
  fix x m
  assume m: "Fin 1 \<le> maxZoom i"
    and d: "isValidConfig i" "camera i \<noteq> None" "Component_Camera ecm \<noteq> None" "zoomChanged i"
    and x: "zoomCommand i = Fin x" "maxZoom i = Fin m" "m < x"
  from d have d': "isValidConfig i \<and> camera i \<noteq> None \<and> Component_Camera ecm \<noteq> None \<and> zoomChanged i"
    by simp
  from x m have "1 \<le> m"
    by simp
  with x have c: "std_clamp (zoomCommand i) minZoom (maxZoom i) = Fin m"
    using std_clamp_Fin [OF m, of x] by (simp add: minZoom_def)
  from detected_warnings [OF d' c, of r info] x
  show "filter is_clamp_warning (snd (PreUpdate r info (i, ecm)))
      = (if epsilon < x - m then [Gzwarn_clamped (Fin x) (Fin m)] else [])"
    and "goalHfov (fst (fst (PreUpdate r info (i, ecm)))) = refHfov i / Fin m"
    by simp_all
next
  assume m: "Fin 1 \<le> maxZoom i"
    and d: "isValidConfig i" "camera i \<noteq> None" "Component_Camera ecm \<noteq> None" "zoomChanged i"
    and x: "zoomCommand i = PInf"
  from d have d': "isValidConfig i \<and> camera i \<noteq> None \<and> Component_Camera ecm \<noteq> None \<and> zoomChanged i"
    by simp
  from x have c: "std_clamp (zoomCommand i) minZoom (maxZoom i) = maxZoom i"
    using std_clamp_PInf [OF m] by (simp add: minZoom_def)
  from detected_warnings [OF d' c, of r info] x m
  show "filter is_clamp_warning (snd (PreUpdate r info (i, ecm)))
      = (if maxZoom i = PInf then [] else [Gzwarn_clamped PInf (maxZoom i)])"
    and "goalHfov (fst (fst (PreUpdate r info (i, ecm)))) = refHfov i / maxZoom i"
    by (cases "maxZoom i"; simp)+
next
  assume m: "Fin 1 \<le> maxZoom i"
    and d: "isValidConfig i" "camera i \<noteq> None" "Component_Camera ecm \<noteq> None" "zoomChanged i"
    and x: "zoomCommand i = NInf"
  from d have d': "isValidConfig i \<and> camera i \<noteq> None \<and> Component_Camera ecm \<noteq> None \<and> zoomChanged i"
    by simp
  from x have c: "std_clamp (zoomCommand i) minZoom (maxZoom i) = Fin 1"
    using std_clamp_NInf [OF m] by (simp add: minZoom_def)
  from detected_warnings [OF d' c, of r info] x
  show "filter is_clamp_warning (snd (PreUpdate r info (i, ecm))) = [Gzwarn_clamped NInf (Fin 1)]"
    and "goalHfov (fst (fst (PreUpdate r info (i, ecm)))) = refHfov i / Fin 1"
    by simp_all
qed

text \<open>
  Scenario B and more with \<open>maxZoom = 10\<close>: the command 20 is reported as clamped to
  10 and gives the goal \<open>2 / 10\<close>; the command 4 is not reported and gives the goal
  \<open>2 / 4\<close>; the command 0 is reported as clamped to 1; a tick with no pending command
  reports nothing.
\<close>

theorem clamp_warning_witness:
  "filter is_clamp_warning (snd (PreUpdate no_rendering \<lparr>dt = 1\<rparr>
      (OnZoom (Fin 20) example_impl,
       ecm_with \<lparr>HorizontalFov = Fin 2, LensFocalLength = Fin 1\<rparr>)))
     = [Gzwarn_clamped (Fin 20) (Fin 10)]
   \<and> goalHfov (fst (fst (PreUpdate no_rendering \<lparr>dt = 1\<rparr>
      (OnZoom (Fin 20) example_impl,
       ecm_with \<lparr>HorizontalFov = Fin 2, LensFocalLength = Fin 1\<rparr>)))) = Fin (2 / 10)
   \<and> filter is_clamp_warning (snd (PreUpdate no_rendering \<lparr>dt = 1\<rparr>
      (OnZoom (Fin 4) example_impl,
       ecm_with \<lparr>HorizontalFov = Fin 2, LensFocalLength = Fin 1\<rparr>))) = []
   \<and> goalHfov (fst (fst (PreUpdate no_rendering \<lparr>dt = 1\<rparr>
      (OnZoom (Fin 4) example_impl,
       ecm_with \<lparr>HorizontalFov = Fin 2, LensFocalLength = Fin 1\<rparr>)))) = Fin (2 / 4)
   \<and> filter is_clamp_warning (snd (PreUpdate no_rendering \<lparr>dt = 1\<rparr>
      (OnZoom (Fin 0) example_impl,
       ecm_with \<lparr>HorizontalFov = Fin 2, LensFocalLength = Fin 1\<rparr>)))
     = [Gzwarn_clamped (Fin 0) (Fin 1)]
   \<and> filter is_clamp_warning (snd (PreUpdate no_rendering \<lparr>dt = 1\<rparr>
      (example_impl, ecm_with \<lparr>HorizontalFov = Fin 2, LensFocalLength = Fin 1\<rparr>))) = []"
proof -
  let ?ecm = "ecm_with \<lparr>HorizontalFov = Fin 2, LensFocalLength = Fin 1\<rparr>"
  have m: "Fin 1 \<le> maxZoom (OnZoom z example_impl)" for z
    by (simp add: OnZoom_def example_impl_def Impl_init_def)
  have m0: "Fin 1 \<le> maxZoom example_impl"
    by (simp add: example_impl_def Impl_init_def)
  have d: "isValidConfig (OnZoom z example_impl) \<and> camera (OnZoom z example_impl) \<noteq> None
      \<and> Component_Camera ?ecm \<noteq> None \<and> zoomChanged (OnZoom z example_impl)" for z
    by (simp add: OnZoom_def example_impl_def Impl_init_def ecm_with_def)
  have z: "zoomCommand (OnZoom z example_impl) = z" for z
    by (simp add: OnZoom_def)
  have v: "refHfov (OnZoom z example_impl) = Fin 2 \<and> maxZoom (OnZoom z example_impl) = Fin 10"
    for z
    by (simp add: OnZoom_def example_impl_def Impl_init_def)
  have e: "epsilon < 1"
    using epsilon_small by simp
  have a: "filter is_clamp_warning (snd (PreUpdate no_rendering \<lparr>dt = 1\<rparr>
        (OnZoom (Fin 20) example_impl, ?ecm))) = [Gzwarn_clamped (Fin 20) (Fin 10)]
      \<and> goalHfov (fst (fst (PreUpdate no_rendering \<lparr>dt = 1\<rparr>
        (OnZoom (Fin 20) example_impl, ?ecm)))) = Fin (2 / 10)"
    using clamp_warning [of "OnZoom (Fin 20) example_impl" ?ecm no_rendering "\<lparr>dt = 1\<rparr>"]
      m [of "Fin 20"] d [of "Fin 20"] z [of "Fin 20"] v [of "Fin 20"] e
    by (simp add: minZoom_def)
  have b: "filter is_clamp_warning (snd (PreUpdate no_rendering \<lparr>dt = 1\<rparr>
        (OnZoom (Fin 4) example_impl, ?ecm))) = []
      \<and> goalHfov (fst (fst (PreUpdate no_rendering \<lparr>dt = 1\<rparr>
        (OnZoom (Fin 4) example_impl, ?ecm)))) = Fin (2 / 4)"
    using clamp_warning [of "OnZoom (Fin 4) example_impl" ?ecm no_rendering "\<lparr>dt = 1\<rparr>"]
      m [of "Fin 4"] d [of "Fin 4"] z [of "Fin 4"] v [of "Fin 4"] epsilon_small
    by (simp add: minZoom_def)
  have c: "filter is_clamp_warning (snd (PreUpdate no_rendering \<lparr>dt = 1\<rparr>
        (OnZoom (Fin 0) example_impl, ?ecm))) = [Gzwarn_clamped (Fin 0) (Fin 1)]"
    using clamp_warning [of "OnZoom (Fin 0) example_impl" ?ecm no_rendering "\<lparr>dt = 1\<rparr>"]
      m [of "Fin 0"] d [of "Fin 0"] z [of "Fin 0"] v [of "Fin 0"] e
    by (simp add: minZoom_def)
  have n: "filter is_clamp_warning (snd (PreUpdate no_rendering \<lparr>dt = 1\<rparr>
        (example_impl, ?ecm))) = []"
    using clamp_warning [of example_impl ?ecm no_rendering "\<lparr>dt = 1\<rparr>"] m0
    by (simp add: example_impl_def Impl_init_def)
  from a b c n show ?thesis
    by (intro conjI) simp_all
qed

text \<open>
  The claim C8 as stated fails for a NaN command: it differs from every value of
  \<open>[1, maxZoom]\<close>, yet the tick prints no warning and divides the reference field of
  view by the command itself, since the clamp hands NaN back and every comparison
  with NaN is false.
\<close>

theorem nan_command_is_used_verbatim:
  "filter is_clamp_warning (snd (PreUpdate no_rendering \<lparr>dt = 1\<rparr>
      (OnZoom NaN example_impl,
       ecm_with \<lparr>HorizontalFov = Fin 2, LensFocalLength = Fin 1\<rparr>))) = []
   \<and> zoomChanged (OnZoom NaN example_impl)
   \<and> \<not> Fin 1 \<le> zoomCommand (OnZoom NaN example_impl)
   \<and> \<not> zoomCommand (OnZoom NaN example_impl) \<le> maxZoom (OnZoom NaN example_impl)
   \<and> goalHfov (fst (fst (PreUpdate no_rendering \<lparr>dt = 1\<rparr>
        (OnZoom NaN example_impl,
         ecm_with \<lparr>HorizontalFov = Fin 2, LensFocalLength = Fin 1\<rparr>))))
       = refHfov (OnZoom NaN example_impl) / zoomCommand (OnZoom NaN example_impl)"
  by (simp add: PreUpdate_goalHfov PreUpdate_clamp_warnings resolveGoal_effects std_clamp_NaN
      OnZoom_def example_impl_def Impl_init_def ecm_with_def)

section \<open>Instant zoom\<close>




section \<open>The optics conversions as inverses\<close>




section \<open>No time step, no slew rate\<close>




section \<open>The rate limit on the focal length\<close>

lemma tan_half_bound: "0 < tan (1 / 2 :: real) \<and> tan (1 / 2 :: real) \<le> 400 / 441"
proof -
  have "(441 / 400 :: real)\<^sup>2 \<le> 3"
    by (simp add: power2_eq_square)
  then have s: "441 / 400 \<le> sqrt 3"
    by (rule real_le_rsqrt)
  then have "1 / sqrt 3 \<le> 1 / (441 / 400)"
    by (intro divide_left_mono) simp_all
  moreover have "tan (1 / 2 :: real) \<le> tan (pi / 6)"
    using pi_ge_three by (intro tan_mono_le) simp_all
  ultimately have "tan (1 / 2 :: real) \<le> 400 / 441"
    by (simp add: tan_30)
  moreover have "0 < tan (1 / 2 :: real)"
    using pi_ge_three tan_half_pos [of 1] by simp
  ultimately show ?thesis by simp
qed

lemma tan_tenth_bound: "0 < tan (1 / 10 :: real) \<and> tan (1 / 10 :: real) \<le> 400 / 441"
proof -
  have "tan (1 / 10 :: real) \<le> tan (1 / 2)"
    using pi_ge_three by (intro tan_mono_le) simp_all
  moreover have "0 < tan (1 / 10 :: real)"
    using pi_ge_three by (intro tan_gt_zero) simp_all
  ultimately show ?thesis
    using tan_half_bound by simp
qed

lemma arctan_bound: "1 / 2 \<le> arctan (20 / 21)"
proof -
  have "tan (1 / 2 :: real) \<le> 20 / 21"
    using tan_half_bound by simp
  then have "arctan (tan (1 / 2)) \<le> arctan (20 / 21)"
    by (simp add: arctan_le_iff)
  moreover have "arctan (tan (1 / 2)) = 1 / 2"
    using pi_ge_three by (intro arctan_tan) simp_all
  ultimately show ?thesis by simp
qed

lemma newFocalLength_limited:
  assumes "s * d = m" and "0 < m" and "cur + m \<le> goal"
  shows "newFocalLength (Fin s) d (Fin cur) (Fin goal) = Fin (cur + m)"
  using assms by (auto simp: newFocalLength_def Let_def std_min_def)

text \<open>
  C1. Each tick limits the step from the focal length it reads, \<^verbatim>\<open>LensFocalLength()\<close> of
  the SDF camera, which no tick writes: a tick writes the field of view only. The
  sensor width, which line 445 says should be static every iteration, is computed
  from that focal length and the field of view last written, so it changes from tick
  to tick, and the steps compound. With a slew rate of \<open>1 / 10\<close>, a time step of
  \<open>1 / 2\<close>, a camera of focal length 1 at a field of view of \<open>pi / 2\<close> (sensor width 2)
  and a command of 10: both ticks read the focal length 1 and compute the new focal
  length \<open>21 / 20\<close>, the second at the sensor width \<open>40 / 21\<close>; at the sensor width 2 of
  the camera the fields of view written are those of the focal lengths \<open>21 / 20\<close> and
  then \<open>441 / 400\<close>, and the second step, \<open>21 / 400\<close>, exceeds the limit
  \<open>slewRate * dt = 1 / 20\<close>.
\<close>

theorem slew_limit_exceeded_at_sensor_width:
  "snd (fst (run [E_OnZoom (Fin 10), E_PreUpdate no_rendering \<lparr>dt = 1 / 2\<rparr>]
        (example_impl\<lparr>slewRate := Fin (1 / 10)\<rparr>,
         ecm_with \<lparr>HorizontalFov = Fin (pi / 2), LensFocalLength = Fin 1\<rparr>)))
     = ecm_with \<lparr>HorizontalFov = Fin (2 * arctan (20 / 21)), LensFocalLength = Fin 1\<rparr>
   \<and> snd (fst (run [E_OnZoom (Fin 10), E_PreUpdate no_rendering \<lparr>dt = 1 / 2\<rparr>,
          E_PreUpdate no_rendering \<lparr>dt = 1 / 2\<rparr>]
        (example_impl\<lparr>slewRate := Fin (1 / 10)\<rparr>,
         ecm_with \<lparr>HorizontalFov = Fin (pi / 2), LensFocalLength = Fin 1\<rparr>)))
     = ecm_with \<lparr>HorizontalFov = Fin (2 * arctan (400 / 441)), LensFocalLength = Fin 1\<rparr>
   \<and> SensorWidth (Fin 1) (Fin (pi / 2)) = Fin 2
   \<and> SensorWidth (Fin 1) (Fin (2 * arctan (20 / 21))) = Fin (40 / 21)
   \<and> newFocalLength (Fin (1 / 10)) (1 / 2) (Fin 1) (FovToFocalLength (Fin 2) (Fin (1 / 5)))
       = Fin (21 / 20)
   \<and> newFocalLength (Fin (1 / 10)) (1 / 2) (Fin 1) (FovToFocalLength (Fin (40 / 21)) (Fin (1 / 5)))
       = Fin (21 / 20)
   \<and> FovToFocalLength (Fin 2) (Fin (pi / 2)) = Fin 1
   \<and> FovToFocalLength (Fin 2) (Fin (2 * arctan (20 / 21))) = Fin (21 / 20)
   \<and> FovToFocalLength (Fin 2) (Fin (2 * arctan (400 / 441))) = Fin (441 / 400)
   \<and> Fin (1 / 10) * Fin (1 / 2) < Fin (441 / 400) - Fin (21 / 20)"
proof -
  let ?j = "example_impl\<lparr>slewRate := Fin (1 / 10)\<rparr>"
  let ?i = "OnZoom (Fin 10) ?j"
  let ?i1 = "fst (resolveGoal ?i)"
  let ?info = "\<lparr>dt = 1 / 2\<rparr>"
  let ?c0 = "\<lparr>HorizontalFov = Fin (pi / 2), LensFocalLength = Fin 1\<rparr>"
  let ?c1 = "\<lparr>HorizontalFov = Fin (2 * arctan (20 / 21)), LensFocalLength = Fin 1\<rparr>"
  let ?c2 = "\<lparr>HorizontalFov = Fin (2 * arctan (400 / 441)), LensFocalLength = Fin 1\<rparr>"
  let ?t = "tan (1 / 10 :: real)"
  have t: "0 < ?t" and t': "?t \<le> 400 / 441"
    using tan_tenth_bound by simp_all
  have w0: "SensorWidth (Fin 1) (Fin (pi / 2)) = Fin 2"
    by (simp add: SensorWidth_Fin tan_45)
  have w1: "SensorWidth (Fin 1) (Fin (2 * arctan (20 / 21))) = Fin (40 / 21)"
    by (simp add: SensorWidth_Fin tan_arctan)
  have g0: "FovToFocalLength (Fin 2) (Fin (1 / 5)) = Fin (1 / ?t)"
    using t by (simp add: FovToFocalLength_def)
  have g1: "FovToFocalLength (Fin (40 / 21)) (Fin (1 / 5)) = Fin (20 / 21 / ?t)"
    using t by (simp add: FovToFocalLength_def)
  have "?t * (441 / 400) \<le> 1"
    using t' by simp
  then have b0: "1 + 1 / 20 \<le> 1 / ?t"
    using t by (simp add: field_simps)
  have "?t * (21 / 20) \<le> 20 / 21"
    using t' by simp
  then have b1: "1 + 1 / 20 \<le> 20 / 21 / ?t"
    using t by (simp add: field_simps)
  have n0: "newFocalLength (Fin (1 / 10)) (1 / 2) (Fin 1) (FovToFocalLength (Fin 2) (Fin (1 / 5)))
      = Fin (21 / 20)"
    using newFocalLength_limited [OF _ _ b0, of "1 / 10" "1 / 2"] by (simp add: g0)
  have n1: "newFocalLength (Fin (1 / 10)) (1 / 2) (Fin 1)
      (FovToFocalLength (Fin (40 / 21)) (Fin (1 / 5))) = Fin (21 / 20)"
    using newFocalLength_limited [OF _ _ b1, of "1 / 10" "1 / 2"] by (simp add: g1)
  have h1: "FocalLengthToFov (Fin 2) (Fin (21 / 20)) = Fin (2 * arctan (20 / 21))"
    by (simp add: FocalLengthToFov_Fin atan2_pos)
  have h2: "FocalLengthToFov (Fin (40 / 21)) (Fin (21 / 20)) = Fin (2 * arctan (400 / 441))"
    by (simp add: FocalLengthToFov_Fin atan2_pos)
  have valid: "isValidConfig ?i" and cam: "camera ?i = Some 0"
    by (simp_all add: OnZoom_def example_impl_def Impl_init_def)
  have i1: "?i1 = ?i\<lparr>goalHfov := Fin (1 / 5), zoomChanged := False\<rparr>"
    by (simp add: resolveGoal_changed OnZoom_def example_impl_def Impl_init_def
        std_clamp_def std_min_def std_max_def minZoom_def)
  have quiet: "snd (resolveGoal ?i) = []"
    using epsilon_small
    by (simp add: resolveGoal_effects OnZoom_def example_impl_def Impl_init_def
        std_clamp_def std_min_def std_max_def minZoom_def)
  have valid1: "isValidConfig ?i1" and cam1: "camera ?i1 = Some 0"
    using valid cam by (simp_all add: resolveGoal_keeps)
  have still: "resolveGoal ?i1 = (?i1, [])"
    by (rule resolveGoal_unchanged) (simp add: i1)
  have goal: "goalHfov ?i1 = Fin (1 / 5)" and rate: "slewRate ?i1 = Fin (1 / 10)"
    by (subst i1, simp add: OnZoom_def)+
  have far0: "\<not> \<bar>goalHfov ?i1 - HorizontalFov ?c0\<bar> < Fin epsilon"
    using pi_ge_three epsilon_small by (simp add: goal)
  have far1: "\<not> \<bar>goalHfov ?i1 - HorizontalFov ?c1\<bar> < Fin epsilon"
    using arctan_bound epsilon_small by (simp add: goal)
  have u0: "updateFov ?i1 0 ?info ?c0
      = (?c1, [SetChanged, SetHFOV 0 (Fin (2 * arctan (20 / 21)))])"
    using updateFov_slew [OF far0, of 0 ?info]
    by (simp add: goal rate w0 n0 h1 SetHorizontalFov_def)
  have u1: "updateFov ?i1 0 ?info ?c1
      = (?c2, [SetChanged, SetHFOV 0 (Fin (2 * arctan (400 / 441)))])"
    using updateFov_slew [OF far1, of 0 ?info]
    by (simp add: goal rate w1 n1 h2 SetHorizontalFov_def)
  have tick0: "PreUpdate no_rendering ?info (?i, ecm_with ?c0)
      = ((?i1, ecm_with ?c1), [SetChanged, SetHFOV 0 (Fin (2 * arctan (20 / 21)))])"
    using PreUpdate_ecm_with [OF valid cam, of no_rendering ?info ?c0] u0 quiet by simp
  have tick1: "PreUpdate no_rendering ?info (?i1, ecm_with ?c1)
      = ((?i1, ecm_with ?c2), [SetChanged, SetHFOV 0 (Fin (2 * arctan (400 / 441)))])"
    using PreUpdate_ecm_with [OF valid1 cam1, of no_rendering ?info ?c1] u1 still by simp
  have r1: "snd (fst (run [E_OnZoom (Fin 10), E_PreUpdate no_rendering ?info] (?j, ecm_with ?c0)))
      = ecm_with ?c1"
    by (simp add: tick0)
  have r2: "snd (fst (run [E_OnZoom (Fin 10), E_PreUpdate no_rendering ?info,
      E_PreUpdate no_rendering ?info] (?j, ecm_with ?c0))) = ecm_with ?c2"
    by (simp add: tick0 tick1)
  have f0: "FovToFocalLength (Fin 2) (Fin (pi / 2)) = Fin 1"
    by (simp add: FovToFocalLength_def tan_45)
  have f1: "FovToFocalLength (Fin 2) (Fin (2 * arctan (20 / 21))) = Fin (21 / 20)"
    by (simp add: FovToFocalLength_def tan_arctan)
  have f2: "FovToFocalLength (Fin 2) (Fin (2 * arctan (400 / 441))) = Fin (441 / 400)"
    by (simp add: FovToFocalLength_def tan_arctan)
  have m: "Fin (1 / 10) * Fin (1 / 2) < Fin (441 / 400) - Fin (21 / 20)"
    by simp
  from r1 r2 w0 w1 n0 n1 f0 f1 f2 m show ?thesis
    by (intro conjI)
qed

end
